theory Spec2Isabelle
  imports Complex_Main "HOL-Library.Multiset"
begin

section \<open>JavaScript numbers\<close>

text \<open>
  The adapter computes with JavaScript numbers, which are IEEE binary64 values. A number is
  modelled as a real number, one of the two infinities, or NaN, and the result of every
  addition, subtraction, multiplication and division is rounded to the nearest number with
  53 significant bits, a tie going to the even one. The exponent range is not modelled
  (no overflow to infinity, no subnormal numbers), nor is the sign of zero. A counter read
  from the raw snapshot is a \<open>real option\<close>, where \<open>None\<close> is the value \<open>undefined\<close>
  of an absent property.
\<close>

definition round_half_even :: "real \<Rightarrow> int" where
  "round_half_even q =
     (let f = \<lfloor>q\<rfloor>; d = q - of_int f
      in if d < 1 / 2 then f else if 1 / 2 < d then f + 1 else if even f then f else f + 1)"

text \<open>The binary exponent of a number, and the distance between neighbouring numbers there.\<close>

definition binade :: "real \<Rightarrow> int" where
  "binade x = \<lfloor>log 2 \<bar>x\<bar>\<rfloor>"

definition ulp :: "real \<Rightarrow> real" where
  "ulp x = 2 powr (of_int (binade x) - 52)"

text \<open>Rounding to binary64.\<close>

definition fl :: "real \<Rightarrow> real" where
  "fl x = (if x = 0 then 0 else of_int (round_half_even (x / ulp x)) * ulp x)"

text \<open>
  The four operations on finite numbers, and a decimal literal of the source: the number
  nearest to what is written.
\<close>

definition fadd :: "real \<Rightarrow> real \<Rightarrow> real" where
  "fadd a b = fl (a + b)"

definition fsub :: "real \<Rightarrow> real \<Rightarrow> real" where
  "fsub a b = fl (a - b)"

definition fmul :: "real \<Rightarrow> real \<Rightarrow> real" where
  "fmul a b = fl (a * b)"

definition fdiv :: "real \<Rightarrow> real \<Rightarrow> real" where
  "fdiv a b = fl (a / b)"

definition lit :: "real \<Rightarrow> real" where
  "lit x = fl x"

datatype jsnum = Num real | PosInf | NegInf | NaN

text \<open>ToNumber of a property: \<open>undefined\<close> becomes NaN.\<close>

fun num :: "real option \<Rightarrow> jsnum" where
  "num None = NaN"
| "num (Some r) = Num r"

text \<open>\<open>x || 0\<close> on a property: \<open>undefined\<close> and \<open>0\<close> are falsy.\<close>

fun or0 :: "real option \<Rightarrow> real" where
  "or0 None = 0"
| "or0 (Some r) = r"

text \<open>\<open>x || d\<close> on a computed number: \<open>0\<close> and NaN are falsy.\<close>

definition js_or :: "jsnum \<Rightarrow> jsnum \<Rightarrow> jsnum" where
  "js_or x d = (if x = NaN \<or> x = Num 0 then d else x)"

fun js_neg :: "jsnum \<Rightarrow> jsnum" where
  "js_neg (Num a) = Num (- a)"
| "js_neg PosInf = NegInf"
| "js_neg NegInf = PosInf"
| "js_neg NaN = NaN"

fun js_add :: "jsnum \<Rightarrow> jsnum \<Rightarrow> jsnum" where
  "js_add (Num a) (Num b) = Num (fadd a b)"
| "js_add NaN y = NaN"
| "js_add x NaN = NaN"
| "js_add PosInf NegInf = NaN"
| "js_add NegInf PosInf = NaN"
| "js_add PosInf y = PosInf"
| "js_add x PosInf = PosInf"
| "js_add NegInf y = NegInf"
| "js_add x NegInf = NegInf"

definition js_sub :: "jsnum \<Rightarrow> jsnum \<Rightarrow> jsnum" where
  "js_sub x y = js_add x (js_neg y)"

text \<open>The sign of an infinite product or quotient; a finite zero counts as positive.\<close>

definition inf_of_sign :: "bool \<Rightarrow> jsnum" where
  "inf_of_sign negative = (if negative then NegInf else PosInf)"

fun js_mul :: "jsnum \<Rightarrow> jsnum \<Rightarrow> jsnum" where
  "js_mul (Num a) (Num b) = Num (fmul a b)"
| "js_mul NaN y = NaN"
| "js_mul x NaN = NaN"
| "js_mul (Num a) PosInf = (if a = 0 then NaN else inf_of_sign (a < 0))"
| "js_mul (Num a) NegInf = (if a = 0 then NaN else inf_of_sign (0 < a))"
| "js_mul PosInf (Num b) = (if b = 0 then NaN else inf_of_sign (b < 0))"
| "js_mul NegInf (Num b) = (if b = 0 then NaN else inf_of_sign (0 < b))"
| "js_mul PosInf PosInf = PosInf"
| "js_mul NegInf NegInf = PosInf"
| "js_mul PosInf NegInf = NegInf"
| "js_mul NegInf PosInf = NegInf"

fun js_div :: "jsnum \<Rightarrow> jsnum \<Rightarrow> jsnum" where
  "js_div (Num a) (Num b) =
     (if b = 0 then (if a = 0 then NaN else inf_of_sign (a < 0)) else Num (fdiv a b))"
| "js_div NaN y = NaN"
| "js_div x NaN = NaN"
| "js_div (Num a) PosInf = Num 0"
| "js_div (Num a) NegInf = Num 0"
| "js_div PosInf (Num b) = inf_of_sign (b < 0)"
| "js_div NegInf (Num b) = inf_of_sign (0 \<le> b)"
| "js_div x y = NaN"

text \<open>The relational operators: every comparison with NaN is false.\<close>

fun js_lt :: "jsnum \<Rightarrow> jsnum \<Rightarrow> bool" where
  "js_lt (Num a) (Num b) = (a < b)"
| "js_lt NaN y = False"
| "js_lt x NaN = False"
| "js_lt PosInf y = False"
| "js_lt x NegInf = False"
| "js_lt NegInf y = True"
| "js_lt x PosInf = True"

definition js_gt :: "jsnum \<Rightarrow> jsnum \<Rightarrow> bool" where
  "js_gt x y = js_lt y x"

fun js_ge :: "jsnum \<Rightarrow> jsnum \<Rightarrow> bool" where
  "js_ge (Num a) (Num b) = (b \<le> a)"
| "js_ge NaN y = False"
| "js_ge x NaN = False"
| "js_ge PosInf y = True"
| "js_ge x NegInf = True"
| "js_ge NegInf y = False"
| "js_ge x PosInf = False"

text \<open>\<open>Math.max\<close> and \<open>Math.min\<close> of two arguments: NaN if either is NaN.\<close>

definition js_max :: "jsnum \<Rightarrow> jsnum \<Rightarrow> jsnum" where
  "js_max x y = (if x = NaN \<or> y = NaN then NaN else if js_lt x y then y else x)"

definition js_min :: "jsnum \<Rightarrow> jsnum \<Rightarrow> jsnum" where
  "js_min x y = (if x = NaN \<or> y = NaN then NaN else if js_lt y x then y else x)"

text \<open>\<open>Math.round\<close>: the nearest integer, a tie going up. It is exact.\<close>

definition round_half_up :: "real \<Rightarrow> int" where
  "round_half_up a = \<lfloor>a + 1 / 2\<rfloor>"

fun js_round :: "jsnum \<Rightarrow> jsnum" where
  "js_round (Num a) = Num (of_int (round_half_up a))"
| "js_round x = x"

section \<open>The raw snapshot\<close>

record query_aging =
  ag_0_7 :: "real option"
  ag_8_14 :: "real option"
  ag_15_30 :: "real option"
  ag_over30 :: "real option"

record queries_t =
  q_total :: "real option"
  q_open :: "real option"
  q_closed :: "real option"
  q_resolutionRate :: "real option"
  q_aging :: "query_aging option"

record saes_t =
  sae_total :: "real option"
  sae_open :: "real option"
  patientsWithOpenSAE :: "real option"
  sitesWithOpenSAE :: "real option"

record visits_t =
  totalMissing :: "real option"
  overdue30Days :: "real option"

record lab_t =
  totalIssues :: "real option"

record coding_dict =
  cd_total :: "real option"
  cd_uncoded :: "real option"

record coding_t =
  meddra :: "coding_dict option"
  whodd :: "coding_dict option"
  totalUncoded :: "real option"

record sdv_t =
  sdv_total :: "real option"
  sdv_verified :: "real option"
  sdv_pending :: "real option"
  verificationRate :: "real option"

record signatures_t =
  sig_pending :: "real option"
  sig_overdue :: "real option"

record edrr_t =
  openIssues :: "real option"

text \<open>
  The region tree. A JavaScript object is the list of its entries in the order
  \<open>Object.entries\<close> enumerates them.
\<close>

record site_t =
  st_patients :: "real option"
  st_total_queries :: "real option"
  st_open_queries :: "real option"

record country_t =
  total_sites :: "real option"
  c_total_queries :: "real option"
  c_open_queries :: "real option"
  sites :: "(string \<times> site_t) list option"

record region_t =
  total_countries :: "real option"
  countries :: "(string \<times> country_t) list option"

text \<open>A trend point is the object with the properties it was built with, in order.\<close>

datatype jsval = JNum jsnum | JDay int | JBool bool | JStr string

type_synonym jsobj = "(string \<times> jsval) list"

record raw_snapshot =
  raw_queries :: "queries_t option"
  raw_saes :: "saes_t option"
  raw_visits :: "visits_t option"
  raw_lab :: "lab_t option"
  raw_coding :: "coding_t option"
  raw_sdv :: "sdv_t option"
  raw_signatures :: "signatures_t option"
  raw_edrr :: "edrr_t option"
  raw_regions :: "(string \<times> region_t) list option"
  raw_dqiTrend :: "jsobj list option"
  raw_lastUpdated :: "string option"
  raw_dataSource :: "string option"
  raw_governanceStatement :: "string option"
  raw_extractionStats :: "string option"

text \<open>\<open>raw.x || {}\<close>: an absent substructure is the object with no property.\<close>

definition no_queries :: queries_t where
  "no_queries = \<lparr>q_total = None, q_open = None, q_closed = None, q_resolutionRate = None,
     q_aging = None\<rparr>"

definition no_saes :: saes_t where
  "no_saes = \<lparr>sae_total = None, sae_open = None, patientsWithOpenSAE = None,
     sitesWithOpenSAE = None\<rparr>"

definition no_visits :: visits_t where
  "no_visits = \<lparr>totalMissing = None, overdue30Days = None\<rparr>"

definition no_lab :: lab_t where
  "no_lab = \<lparr>totalIssues = None\<rparr>"

definition no_coding :: coding_t where
  "no_coding = \<lparr>meddra = None, whodd = None, totalUncoded = None\<rparr>"

definition no_sdv :: sdv_t where
  "no_sdv = \<lparr>sdv_total = None, sdv_verified = None, sdv_pending = None,
     verificationRate = None\<rparr>"

definition no_signatures :: signatures_t where
  "no_signatures = \<lparr>sig_pending = None, sig_overdue = None\<rparr>"

definition no_edrr :: edrr_t where
  "no_edrr = \<lparr>openIssues = None\<rparr>"

definition or_empty :: "'a option \<Rightarrow> 'a \<Rightarrow> 'a" where
  "or_empty x d = (case x of None \<Rightarrow> d | Some v \<Rightarrow> v)"

section \<open>The composite DQI\<close>

text \<open>
  The source holds two adapters. Definitions with the suffix \<open>_v2\<close> follow the adapter
  that logs "Real Data Adapter v2" (seven weights); those with the suffix \<open>_v1\<close> follow
  the other one (five weights, three of them on fixed estimates).
\<close>

definition saeResolutionScore_v2 :: "saes_t \<Rightarrow> jsnum" where
  "saeResolutionScore_v2 s =
     (if js_gt (num (sae_total s)) (Num 0)
      then js_round (js_mul (js_div (js_sub (num (sae_total s)) (num (sae_open s)))
                                    (num (sae_total s))) (Num 100))
      else Num 100)"

definition visitScore :: "visits_t \<Rightarrow> jsnum" where
  "visitScore v =
     js_max (Num 0) (js_sub (Num 100) (js_min (Num 100) (js_div (num (totalMissing v)) (Num 10))))"

definition labScore :: "lab_t \<Rightarrow> jsnum" where
  "labScore l =
     js_max (Num 0) (js_sub (Num 100) (js_min (Num 100) (js_div (num (totalIssues l)) (Num 200))))"

definition codingScore :: "coding_t \<Rightarrow> jsnum" where
  "codingScore c =
     (case meddra c of
        None \<Rightarrow> Num 100
      | Some m \<Rightarrow>
          if js_gt (num (cd_total m)) (Num 0)
          then js_mul (js_div (js_sub (num (cd_total m)) (num (cd_uncoded m))) (num (cd_total m)))
                      (Num 100)
          else Num 100)"

definition signatureScore :: "signatures_t \<Rightarrow> jsnum" where
  "signatureScore g =
     js_max (Num 0) (js_sub (Num 100) (js_min (Num 100) (js_div (num (sig_overdue g)) (Num 100))))"

definition dqi_v2 :: "raw_snapshot \<Rightarrow> jsnum" where
  "dqi_v2 raw =
     (let queries = or_empty (raw_queries raw) no_queries;
          saes = or_empty (raw_saes raw) no_saes;
          visits = or_empty (raw_visits raw) no_visits;
          lab = or_empty (raw_lab raw) no_lab;
          coding = or_empty (raw_coding raw) no_coding;
          sdv = or_empty (raw_sdv raw) no_sdv;
          signatures = or_empty (raw_signatures raw) no_signatures;
          queryResolutionScore = Num (or0 (q_resolutionRate queries));
          sdvScore = Num (or0 (verificationRate sdv))
      in js_round
           (js_add (js_add (js_add (js_add (js_add (js_add
              (js_mul (saeResolutionScore_v2 saes) (Num (lit 0.30)))
              (js_mul queryResolutionScore (Num (lit 0.25))))
              (js_mul (visitScore visits) (Num (lit 0.10))))
              (js_mul (labScore lab) (Num (lit 0.10))))
              (js_mul (codingScore coding) (Num (lit 0.10))))
              (js_mul sdvScore (Num (lit 0.10))))
              (js_mul (signatureScore signatures) (Num (lit 0.05)))))"

definition saeResolutionScore_v1 :: "saes_t \<Rightarrow> jsnum" where
  "saeResolutionScore_v1 s =
     (if js_gt (num (sae_total s)) (Num 0)
      then js_div (js_sub (num (sae_total s)) (num (sae_open s))) (num (sae_total s))
      else Num 1)"

definition dqi_v1 :: "raw_snapshot \<Rightarrow> jsnum" where
  "dqi_v1 raw =
     (let queries = or_empty (raw_queries raw) no_queries;
          saes = or_empty (raw_saes raw) no_saes;
          queryResolutionScore = js_div (Num (or0 (q_resolutionRate queries))) (Num 100)
      in js_round
           (js_mul
              (js_add (js_add (js_add (js_add
                 (js_mul (saeResolutionScore_v1 saes) (Num (lit 0.30)))
                 (js_mul queryResolutionScore (Num (lit 0.25))))
                 (js_mul (Num (lit 0.75)) (Num (lit 0.20))))
                 (js_mul (Num (lit 0.85)) (Num (lit 0.15))))
                 (js_mul (Num (lit 0.90)) (Num (lit 0.10))))
              (Num 100)))"

section \<open>The readiness status\<close>

datatype readiness = Ready | AtRisk | NotReady

definition readinessStatus_v2 :: "raw_snapshot \<Rightarrow> readiness" where
  "readinessStatus_v2 raw =
     (let queries = or_empty (raw_queries raw) no_queries;
          saes = or_empty (raw_saes raw) no_saes;
          queryResolutionScore = Num (or0 (q_resolutionRate queries))
      in if sae_open saes = Some 0 \<and> js_ge queryResolutionScore (Num 98) then Ready
         else if js_lt (num (sae_open saes)) (Num 100) \<and> js_ge queryResolutionScore (Num 85)
         then AtRisk
         else NotReady)"

definition readinessStatus_v1 :: "raw_snapshot \<Rightarrow> readiness" where
  "readinessStatus_v1 raw =
     (let queries = or_empty (raw_queries raw) no_queries;
          saes = or_empty (raw_saes raw) no_saes
      in if sae_open saes = Some 0 \<and> js_ge (num (q_resolutionRate queries)) (Num 98) then Ready
         else if js_lt (num (sae_open saes)) (Num 10)
                 \<and> js_ge (num (q_resolutionRate queries)) (Num 90)
         then AtRisk
         else NotReady)"

text \<open>
  The ladder as the specification words it, over the two counters and the two
  configuration constants.
\<close>

definition classify :: "real \<Rightarrow> real \<Rightarrow> real \<Rightarrow> real \<Rightarrow> readiness" where
  "classify ceiling_c floor_c openSAEs queryResolutionRate =
     (if openSAEs = 0 \<and> 98 \<le> queryResolutionRate then Ready
      else if openSAEs < ceiling_c \<and> floor_c \<le> queryResolutionRate then AtRisk
      else NotReady)"

text \<open>The snapshot of the end-to-end scenario: every other counter category is zero.\<close>

definition scenario_snapshot :: raw_snapshot where
  "scenario_snapshot =
     \<lparr>raw_queries = Some \<lparr>q_total = Some 1000, q_open = Some 200, q_closed = Some 0,
          q_resolutionRate = Some 80,
          q_aging = Some \<lparr>ag_0_7 = Some 0, ag_8_14 = Some 0, ag_15_30 = Some 0,
            ag_over30 = Some 0\<rparr>\<rparr>,
      raw_saes = Some \<lparr>sae_total = Some 500, sae_open = Some 0, patientsWithOpenSAE = Some 0,
          sitesWithOpenSAE = Some 0\<rparr>,
      raw_visits = Some \<lparr>totalMissing = Some 0, overdue30Days = Some 0\<rparr>,
      raw_lab = Some \<lparr>totalIssues = Some 0\<rparr>,
      raw_coding = Some \<lparr>meddra = Some \<lparr>cd_total = Some 0, cd_uncoded = Some 0\<rparr>,
          whodd = Some \<lparr>cd_total = Some 0, cd_uncoded = Some 0\<rparr>, totalUncoded = Some 0\<rparr>,
      raw_sdv = Some \<lparr>sdv_total = Some 0, sdv_verified = Some 0, sdv_pending = Some 0,
          verificationRate = Some 0\<rparr>,
      raw_signatures = Some \<lparr>sig_pending = Some 0, sig_overdue = Some 0\<rparr>,
      raw_edrr = Some \<lparr>openIssues = Some 0\<rparr>,
      raw_regions = Some [],
      raw_dqiTrend = None,
      raw_lastUpdated = None,
      raw_dataSource = None,
      raw_governanceStatement = None,
      raw_extractionStats = None\<rparr>"

text \<open>The scenario snapshot with the two counters of the readiness ladder replaced.\<close>

definition ladder_snapshot :: "real option \<Rightarrow> real option \<Rightarrow> raw_snapshot" where
  "ladder_snapshot openSAEs rate =
     scenario_snapshot
       \<lparr>raw_queries := Some \<lparr>q_total = Some 1000, q_open = Some 200, q_closed = Some 0,
          q_resolutionRate = rate, q_aging = None\<rparr>,
        raw_saes := Some \<lparr>sae_total = Some 500, sae_open = openSAEs, patientsWithOpenSAE = Some 0,
          sitesWithOpenSAE = Some 0\<rparr>\<rparr>"

section \<open>Regions, countries and sites\<close>

text \<open>\<open>x || d\<close> on a property, and \<open>Object.entries(x || {})\<close>.\<close>

definition or_num :: "real option \<Rightarrow> real \<Rightarrow> real" where
  "or_num x d = (case x of None \<Rightarrow> d | Some r \<Rightarrow> if r = 0 then d else r)"

definition entries :: "('k \<times> 'v) list option \<Rightarrow> ('k \<times> 'v) list" where
  "entries x = or_empty x []"

text \<open>\<open>toLowerCase\<close> on the ASCII letters.\<close>

definition toLowerCase :: "string \<Rightarrow> string" where
  "toLowerCase s =
     map (\<lambda>c. let n = (of_char c :: nat) in if 65 \<le> n \<and> n \<le> 90 then char_of (n + 32) else c) s"

definition countryNames_v2 :: "(string \<times> string) list" where
  "countryNames_v2 =
     [(''USA'', ''United States''), (''CAN'', ''Canada''), (''MEX'', ''Mexico''),
      (''BRA'', ''Brazil''), (''ARG'', ''Argentina''), (''COL'', ''Colombia''),
      (''CHL'', ''Chile''), (''PER'', ''Peru''), (''CHN'', ''China''), (''JPN'', ''Japan''),
      (''KOR'', ''South Korea''), (''IND'', ''India''), (''TWN'', ''Taiwan''),
      (''THA'', ''Thailand''), (''PHL'', ''Philippines''), (''MYS'', ''Malaysia''),
      (''DEU'', ''Germany''), (''FRA'', ''France''), (''GBR'', ''United Kingdom''),
      (''ESP'', ''Spain''), (''ITA'', ''Italy''), (''POL'', ''Poland''),
      (''NLD'', ''Netherlands''), (''AUT'', ''Austria''), (''BEL'', ''Belgium''),
      (''CZE'', ''Czech Republic''), (''HUN'', ''Hungary''), (''RUS'', ''Russia''),
      (''UKR'', ''Ukraine''), (''TUR'', ''Turkey''), (''ISR'', ''Israel''),
      (''ZAF'', ''South Africa''), (''AUS'', ''Australia''), (''NZL'', ''New Zealand''),
      (''SGP'', ''Singapore''), (''EGY'', ''Egypt''), (''SAU'', ''Saudi Arabia''),
      (''ARE'', ''UAE''), (''OMN'', ''Oman'')]"

definition countryNames_v1 :: "(string \<times> string) list" where
  "countryNames_v1 =
     [(''USA'', ''United States''), (''CAN'', ''Canada''), (''MEX'', ''Mexico''),
      (''BRA'', ''Brazil''), (''ARG'', ''Argentina''), (''COL'', ''Colombia''),
      (''CHL'', ''Chile''), (''CHN'', ''China''), (''JPN'', ''Japan''),
      (''KOR'', ''South Korea''), (''IND'', ''India''), (''TWN'', ''Taiwan''),
      (''THA'', ''Thailand''), (''PHL'', ''Philippines''),
      (''DEU'', ''Germany''), (''FRA'', ''France''), (''GBR'', ''United Kingdom''),
      (''ESP'', ''Spain''), (''ITA'', ''Italy''), (''POL'', ''Poland''),
      (''NLD'', ''Netherlands''), (''AUT'', ''Austria''), (''BEL'', ''Belgium''),
      (''CZE'', ''Czech Republic''), (''HUN'', ''Hungary''), (''RUS'', ''Russia''),
      (''UKR'', ''Ukraine''), (''TUR'', ''Turkey''), (''ISR'', ''Israel''),
      (''ZAF'', ''South Africa''), (''AUS'', ''Australia''), (''NZL'', ''New Zealand'')]"

text \<open>
  \<open>names[code] || code\<close>, the table being a parameter. The table is an object literal, so a
  code that is not in it but names a member of \<open>Object.prototype\<close> finds that member, which
  is truthy and not a string.
\<close>

datatype country_name = Named string | Inherited string

definition objectPrototypeKeys :: "string list" where
  "objectPrototypeKeys =
     [''constructor'', ''__defineGetter__'', ''__defineSetter__'', ''hasOwnProperty'',
      ''__lookupGetter__'', ''__lookupSetter__'', ''isPrototypeOf'', ''propertyIsEnumerable'',
      ''toString'', ''valueOf'', ''__proto__'', ''toLocaleString'']"

definition getCountryName :: "(string \<times> string) list \<Rightarrow> string \<Rightarrow> country_name" where
  "getCountryName names code =
     (case map_of names code of
        Some n \<Rightarrow> Named n
      | None \<Rightarrow> if code \<in> set objectPrototypeKeys then Inherited code else Named code)"

datatype node_status = Healthy | NodeAtRisk | Critical

text \<open>The nested conditional \<open>dqi >= 85 ? 'healthy' : dqi >= 70 ? 'at-risk' : 'critical'\<close>.\<close>

definition statusOf :: "int \<Rightarrow> node_status" where
  "statusOf dqi = (if 85 \<le> dqi then Healthy else if 70 \<le> dqi then NodeAtRisk else Critical)"

text \<open>
  \<open>totalQueries > 0 ? ((totalQueries - openQueries) / totalQueries * 100) : 100\<close>, the same
  expression for a country and for a site.
\<close>

definition resolutionRateOf :: "real \<Rightarrow> real \<Rightarrow> real" where
  "resolutionRateOf totalQueries openQueries =
     (if totalQueries > 0 then fmul (fdiv (fsub totalQueries openQueries) totalQueries) 100
      else 100)"

record country_row =
  cr_id :: string
  cr_name :: country_name
  cr_sites :: real
  cr_patients :: real
  cr_dqi :: int
  cr_cleanPercent :: int
  cr_openSAE :: int
  cr_status :: node_status

record region_row =
  rr_id :: string
  rr_name :: string
  rr_countries :: "country_row list"

text \<open>The body of the inner loop of \<open>transformRegionsData\<close>: one country entry.\<close>

definition countryRow :: "(string \<times> string) list \<Rightarrow> string \<times> country_t \<Rightarrow> country_row" where
  "countryRow names e =
     (let countryCode = fst e; countryData = snd e;
          totalQueries = or0 (c_total_queries countryData);
          openQueries = or0 (c_open_queries countryData);
          resolutionRate = resolutionRateOf totalQueries openQueries;
          dqi = round_half_up (fadd (fmul resolutionRate (lit 0.8)) 20)
      in \<lparr>cr_id = toLowerCase countryCode,
          cr_name = getCountryName names countryCode,
          cr_sites = or_num (total_sites countryData)
                       (real (length (entries (sites countryData)))),
          cr_patients = foldl (\<lambda>sum s. fadd sum (or0 (st_patients s))) 0
                          (map snd (entries (sites countryData))),
          cr_dqi = dqi,
          cr_cleanPercent = round_half_up (fmul resolutionRate (lit 0.85)),
          cr_openSAE = \<lfloor>fdiv openQueries 10\<rfloor>,
          cr_status = statusOf dqi\<rparr>)"

definition transformRegionsData ::
  "(string \<times> string) list \<Rightarrow> (string \<times> region_t) list \<Rightarrow> region_row list" where
  "transformRegionsData names rawRegions =
     map (\<lambda>(regionName, regionData).
            \<lparr>rr_id = toLowerCase regionName,
             rr_name = regionName,
             rr_countries = map (countryRow names) (entries (countries regionData))\<rparr>)
         rawRegions"

text \<open>
  The name of a site is the template \<open>`${getCountryName(countryCode)} - ${siteId}`\<close>,
  kept as the pair of its two interpolated parts.
\<close>

record site_row =
  sr_id :: string
  sr_name :: "country_name \<times> string"
  sr_country :: string
  sr_dqi :: int
  sr_cleanPercent :: int
  sr_patients :: real
  sr_openQueries :: real
  sr_totalQueries :: real
  sr_status :: node_status

text \<open>The body of the innermost loop of \<open>calculateSiteRankings\<close>: one site entry.\<close>

definition siteRow :: "(string \<times> string) list \<Rightarrow> string \<Rightarrow> string \<times> site_t \<Rightarrow> site_row" where
  "siteRow names countryCode e =
     (let siteId = fst e; siteData = snd e;
          totalQueries = or0 (st_total_queries siteData);
          openQueries = or0 (st_open_queries siteData);
          resolutionRate = resolutionRateOf totalQueries openQueries;
          dqi = round_half_up (fadd (fmul resolutionRate (lit 0.8)) 20)
      in \<lparr>sr_id = siteId,
          sr_name = (getCountryName names countryCode, siteId),
          sr_country = countryCode,
          sr_dqi = dqi,
          sr_cleanPercent = round_half_up (fmul resolutionRate (lit 0.85)),
          sr_patients = or0 (st_patients siteData),
          sr_openQueries = openQueries,
          sr_totalQueries = totalQueries,
          sr_status = statusOf dqi\<rparr>)"

text \<open>The three nested loops: every site of every country of every region, in order.\<close>

definition allSites :: "(string \<times> string) list \<Rightarrow> (string \<times> region_t) list \<Rightarrow> site_row list" where
  "allSites names rawRegions =
     concat (map (\<lambda>(regionName, regionData).
       concat (map (\<lambda>(countryCode, countryData).
         map (siteRow names countryCode) (entries (sites countryData)))
         (entries (countries regionData))))
       rawRegions)"

record rankings =
  topSites :: "site_row list"
  bottomSites :: "site_row list"

text \<open>
  \<open>allSites.sort((a, b) => b.dqi - a.dqi)\<close> is a stable sort by descending score;
  \<open>slice(0, 5)\<close> keeps the first five and \<open>slice(-5)\<close> the last five (all of them when
  there are fewer).
\<close>

definition calculateSiteRankings ::
  "(string \<times> string) list \<Rightarrow> (string \<times> region_t) list \<Rightarrow> rankings" where
  "calculateSiteRankings names rawRegions =
     (let sorted_sites = sort_key (\<lambda>s. - sr_dqi s) (allSites names rawRegions)
      in \<lparr>topSites = take 5 sorted_sites,
          bottomSites = rev (drop (length sorted_sites - 5) sorted_sites)\<rparr>)"

definition countTotalSites :: "(string \<times> region_t) list option \<Rightarrow> real" where
  "countTotalSites rs =
     foldl (\<lambda>count region.
              foldl (\<lambda>count country. fadd count (or0 (total_sites country))) count
                    (map snd (entries (countries region))))
           0 (map snd (entries rs))"

definition countTotalCountries :: "(string \<times> region_t) list option \<Rightarrow> real" where
  "countTotalCountries rs =
     foldl (\<lambda>count region.
              fadd count
                (or_num (total_countries region) (real (length (entries (countries region))))))
           0 (map snd (entries rs))"





text \<open>
  The site leaves of a tree in the order of the traversal, each with the code of its
  country, and what the specification asks of the row of a leaf and of the entry of a
  country.
\<close>

definition leafData :: "(string \<times> region_t) list \<Rightarrow> (string \<times> string \<times> site_t) list" where
  "leafData rawRegions =
     concat (map (\<lambda>region.
       concat (map (\<lambda>country. map (\<lambda>site. (fst country, site)) (entries (sites (snd country))))
         (entries (countries (snd region)))))
       rawRegions)"

definition leafKeys :: "(string \<times> region_t) list \<Rightarrow> (string \<times> string) list" where
  "leafKeys rawRegions = map (\<lambda>(countryCode, siteId, siteData). (countryCode, siteId)) (leafData rawRegions)"



section \<open>Trend series\<close>

text \<open>
  The clock of the host is a parameter: \<open>clk_now\<close> is the reading of \<open>Date.now()\<close> in
  milliseconds, the same for every reading of one run; \<open>clk_offset t\<close> is the offset of
  local time from UTC, in milliseconds, in force at the instant \<open>t\<close>, and
  \<open>clk_offset_local t\<close> the offset the host applies to the local time value \<open>t\<close>. A date
  string stands for its day number, the number of days since the epoch.
\<close>

record host_clock =
  clk_now :: int
  clk_offset :: "int \<Rightarrow> int"
  clk_offset_local :: "int \<Rightarrow> int"

definition msPerDay :: int where
  "msPerDay = 24 * 60 * 60 * 1000"

text \<open>
  \<open>new Date(x).toISOString().split('T')[0]\<close>: the time value is \<open>x\<close> with its fraction
  cut off, and the date is its UTC day.
\<close>

definition timeClip :: "real \<Rightarrow> int" where
  "timeClip x = (if 0 \<le> x then \<lfloor>x\<rfloor> else \<lceil>x\<rceil>)"

definition dayOf :: "real \<Rightarrow> int" where
  "dayOf ms = timeClip ms div msPerDay"

text \<open>
  \<open>date = new Date(); date.setDate(date.getDate() - i * 7); date.toISOString().split('T')[0]\<close>:
  \<open>setDate\<close> moves the local time back by \<open>7 * i\<close> days and converts it to UTC with
  the offset for the new local time; the string is the UTC day of the result.
\<close>

definition isoDateWeeksAgo :: "host_clock \<Rightarrow> nat \<Rightarrow> int" where
  "isoDateWeeksAgo clk i =
     (let localTime = clk_now clk + clk_offset clk (clk_now clk);
          newDate = localTime - int i * 7 * msPerDay;
          u = newDate - clk_offset_local clk newDate
      in u div msPerDay)"

text \<open>
  \<open>generateDQITrend\<close> also draws from \<open>Math.random\<close>: \<open>rnd k\<close> is the result of the
  \<open>k\<close>-th draw of the call, a number from 0 up to but not including 1. The argument
  \<open>k\<close> of the loop counts the draws made so far, and its last argument the iterations
  left: the loop variable \<open>i\<close> of the source is one less.
\<close>

definition dqiPoint :: "jsnum \<Rightarrow> host_clock \<Rightarrow> nat \<Rightarrow> real \<Rightarrow> jsobj" where
  "dqiPoint currentDqi clk i r =
     (let historicalDqi =
            js_max (Num 20)
              (js_add (js_sub currentDqi (js_mul (Num (real i)) (Num 3)))
                      (js_mul (js_sub (Num r) (Num 0.5)) (Num 5)))
      in [(''date'', JDay (isoDateWeeksAgo clk i)), (''value'', JNum (js_round historicalDqi))])"

fun generateDQITrend_loop ::
  "jsnum \<Rightarrow> host_clock \<Rightarrow> (nat \<Rightarrow> real) \<Rightarrow> nat \<Rightarrow> nat \<Rightarrow> jsobj list" where
  "generateDQITrend_loop currentDqi clk rnd k 0 = []"
| "generateDQITrend_loop currentDqi clk rnd k (Suc i) =
     dqiPoint currentDqi clk i (rnd k) # generateDQITrend_loop currentDqi clk rnd (Suc k) i"

definition generateDQITrend :: "jsnum \<Rightarrow> nat \<Rightarrow> host_clock \<Rightarrow> (nat \<Rightarrow> real) \<Rightarrow> jsobj list" where
  "generateDQITrend currentDqi weeks clk rnd = generateDQITrend_loop currentDqi clk rnd 0 weeks"

text \<open>
  The choice between the series of the snapshot and a generated one:
  \<open>raw.dqiTrend || []\<close>, replaced when it is empty or every point has the value 50.
\<close>

definition degenerate :: "jsobj list \<Rightarrow> bool" where
  "degenerate t = (t = [] \<or> list_all (\<lambda>p. map_of p ''value'' = Some (JNum (Num 50))) t)"

definition dqiTrendOf ::
  "jsobj list option \<Rightarrow> jsnum \<Rightarrow> host_clock \<Rightarrow> (nat \<Rightarrow> real) \<Rightarrow> jsobj list" where
  "dqiTrendOf provided dqi clk rnd =
     (let dqiTrend = or_empty provided []
      in if degenerate dqiTrend then generateDQITrend dqi 7 clk rnd else dqiTrend)"

text \<open>\<open>generateTrendData\<close>, with the same reading of the clock and of the draws.\<close>

definition trendPoint :: "jsnum \<Rightarrow> nat \<Rightarrow> bool \<Rightarrow> host_clock \<Rightarrow> nat \<Rightarrow> real \<Rightarrow> jsobj" where
  "trendPoint currentValue weeks decreasing clk i r =
     (let variance = js_mul (js_mul (js_sub (Num r) (Num 0.5)) (Num (lit 0.1))) currentValue;
          trend = (if decreasing
                   then js_mul currentValue
                          (js_add (Num 1)
                             (js_mul (js_div (Num (real i)) (Num (real weeks))) (Num (lit 0.3))))
                   else js_mul currentValue
                          (js_sub (Num 1)
                             (js_mul (js_div (Num (real i)) (Num (real weeks))) (Num (lit 0.15)))))
      in [(''date'', JDay (isoDateWeeksAgo clk i)),
          (''value'', JNum (js_round (js_add trend variance)))])"

fun generateTrendData_loop ::
  "jsnum \<Rightarrow> nat \<Rightarrow> bool \<Rightarrow> host_clock \<Rightarrow> (nat \<Rightarrow> real) \<Rightarrow> nat \<Rightarrow> nat \<Rightarrow> jsobj list" where
  "generateTrendData_loop currentValue weeks decreasing clk rnd k 0 = []"
| "generateTrendData_loop currentValue weeks decreasing clk rnd k (Suc i) =
     trendPoint currentValue weeks decreasing clk i (rnd k)
       # generateTrendData_loop currentValue weeks decreasing clk rnd (Suc k) i"

definition generateTrendData ::
  "jsnum \<Rightarrow> nat \<Rightarrow> bool \<Rightarrow> host_clock \<Rightarrow> (nat \<Rightarrow> real) \<Rightarrow> jsobj list" where
  "generateTrendData currentValue weeks decreasing clk rnd =
     generateTrendData_loop currentValue weeks decreasing clk rnd 0 weeks"

section \<open>Rendered text\<close>

text \<open>
  A template string is the list of its pieces: literal text, a number rendered by
  \<open>toLocaleString()\<close>, a number or a property interpolated by \<open>${...}\<close> (an absent
  property renders as "undefined"), and \<open>String(i).padStart(4, '0')\<close>.
\<close>

datatype piece = Lit string | Locale jsnum | Shown jsnum | ShownField "real option" | Pad4 nat

type_synonym rendered = "piece list"

datatype js_error = TypeError

text \<open>\<open>x.toLocaleString()\<close> on a property: a TypeError when the property is absent.\<close>

definition toLocaleString :: "real option \<Rightarrow> js_error + piece" where
  "toLocaleString x = (case x of None \<Rightarrow> Inl TypeError | Some v \<Rightarrow> Inr (Locale (Num v)))"

text \<open>\<open>x?.toLocaleString() || '0'\<close> on a property.\<close>

definition localeOr0 :: "real option \<Rightarrow> rendered" where
  "localeOr0 x = (case x of None \<Rightarrow> [Lit ''0''] | Some v \<Rightarrow> [Locale (Num v)])"

definition then_do :: "'e + 'a \<Rightarrow> ('a \<Rightarrow> 'e + 'b) \<Rightarrow> 'e + 'b" where
  "then_do r f = (case r of Inl e \<Rightarrow> Inl e | Inr v \<Rightarrow> f v)"

text \<open>\<open>queries.aging?.['>30 days']\<close>.\<close>

definition over30 :: "queries_t \<Rightarrow> real option" where
  "over30 q = (case q_aging q of None \<Rightarrow> None | Some a \<Rightarrow> ag_over30 a)"

text \<open>The draws of a run that are left after the first \<open>k\<close>.\<close>

definition skip :: "nat \<Rightarrow> (nat \<Rightarrow> real) \<Rightarrow> (nat \<Rightarrow> real)" where
  "skip k rnd = (\<lambda>j. rnd (k + j))"

section \<open>Insights and recommendations\<close>

datatype insight_kind = Blocker | Trend | Risk

datatype icon = NoEntrySign | ChartUp | WarningSign | BarChart

datatype insight_priority = InsightCritical | InsightHigh | InsightInfo

record insight =
  in_id :: nat
  in_kind :: insight_kind
  in_icon :: icon
  in_title :: string
  in_summary :: rendered
  in_priority :: insight_priority
  in_affectedSites :: "string list option"
  in_generatedAt :: int
  in_source :: string

definition generateAIInsights_v2 ::
  "raw_snapshot \<Rightarrow> jsnum \<Rightarrow> saes_t \<Rightarrow> queries_t \<Rightarrow> lab_t \<Rightarrow> visits_t \<Rightarrow> int \<Rightarrow> insight list" where
  "generateAIInsights_v2 raw dqi saes queries lab visits now =
     [\<lparr>in_id = 1,
       in_kind = (if js_gt (num (sae_open saes)) (Num 0) then Blocker else Trend),
       in_icon = (if js_gt (num (sae_open saes)) (Num 0) then NoEntrySign else ChartUp),
       in_title = ''Submission Readiness Assessment'',
       in_summary =
         [Lit ''<strong>'', Locale (Num (or0 (sae_open saes))), Lit '' open SAEs</strong> across '',
          Locale (Num (or0 (sitesWithOpenSAE saes))),
          Lit '' sites are blocking database lock. '',
          Locale (Num (or0 (patientsWithOpenSAE saes))),
          Lit '' patients have unresolved safety events. <strong>Safety team escalation required.</strong>''],
       in_priority = (if js_gt (num (sae_open saes)) (Num 1000) then InsightCritical else InsightHigh),
       in_affectedSites = None,
       in_generatedAt = now,
       in_source = ''SAE_Dashboard (DM + Safety) - 23 studies''\<rparr>]
     @ (if js_gt (num (over30 queries)) (Num 0)
        then [\<lparr>in_id = 2, in_kind = Risk, in_icon = WarningSign,
               in_title = ''Query Aging Alert'',
               in_summary =
                 [Lit ''<strong>'', Locale (Num (or0 (over30 queries))),
                  Lit '' queries</strong> open >30 days. Total queries: '',
                  Locale (Num (or0 (q_total queries))),
                  Lit '', Resolution rate: '', ShownField (q_resolutionRate queries),
                  Lit ''% (target: 98%). <strong>CRA follow-up recommended.</strong>''],
               in_priority = (if js_gt (num (over30 queries)) (Num 1000)
                              then InsightCritical else InsightHigh),
               in_affectedSites = None,
               in_generatedAt = now,
               in_source = ''CPID_EDC_Metrics - 23 studies''\<rparr>]
        else [])
     @ [\<lparr>in_id = 3, in_kind = Trend, in_icon = BarChart,
         in_title = ''Data Quality Index Summary'',
         in_summary =
           [Lit ''DQI: <strong>'', Shown dqi,
            Lit ''%</strong> (Safety 30%, Queries 25%, Visits/Lab/Coding 35%, SDV/Sig 10%). <strong>'',
            Locale (Num (or0 (totalIssues lab))), Lit ''</strong> lab issues, <strong>'',
            Locale (Num (or0 (totalMissing visits))), Lit ''</strong> missing visits flagged.''],
         in_priority = (if js_lt dqi (Num 70) then InsightHigh else InsightInfo),
         in_affectedSites = None,
         in_generatedAt = now,
         in_source = ''Complete extraction from 9 file types''\<rparr>]"

text \<open>
  The older generator calls \<open>toLocaleString\<close> on the properties themselves. The template
  of the first insight is evaluated before anything is pushed, so a TypeError there leaves
  no result.
\<close>

definition generateAIInsights_v1 ::
  "raw_snapshot \<Rightarrow> jsnum \<Rightarrow> real \<Rightarrow> saes_t \<Rightarrow> queries_t \<Rightarrow> int \<Rightarrow> js_error + insight list" where
  "generateAIInsights_v1 raw dqi sitesAtRisk saes queries now =
     then_do (toLocaleString (sae_open saes)) (\<lambda>openText.
     then_do (toLocaleString (sitesWithOpenSAE saes)) (\<lambda>sitesText.
     then_do (toLocaleString (patientsWithOpenSAE saes)) (\<lambda>patientsText.
     then_do (if js_gt (num (over30 queries)) (Num 0) then toLocaleString (over30 queries)
              else Inr (Lit [])) (\<lambda>agingText.
     Inr
      ([\<lparr>in_id = 1,
         in_kind = (if js_gt (num (sae_open saes)) (Num 0) then Blocker else Trend),
         in_icon = (if js_gt (num (sae_open saes)) (Num 0) then NoEntrySign else ChartUp),
         in_title = ''Submission Readiness Assessment'',
         in_summary =
           [Lit ''<strong>'', openText, Lit '' open SAEs</strong> across '', sitesText,
            Lit '' sites are currently blocking database lock. '', patientsText,
            Lit '' patients have unresolved safety events. <strong>Safety team escalation required before interim analysis.</strong>''],
         in_priority = (if js_gt (num (sae_open saes)) (Num 100) then InsightCritical else InsightHigh),
         in_affectedSites = Some [],
         in_generatedAt = now,
         in_source = ''SAE_Dashboard_DM + SAE_Dashboard_Safety''\<rparr>]
       @ (if js_gt (num (over30 queries)) (Num 0)
          then [\<lparr>in_id = 2, in_kind = Risk, in_icon = WarningSign,
                 in_title = ''Query Aging Alert'',
                 in_summary =
                   [Lit ''<strong>'', agingText,
                    Lit '' queries</strong> have been open for more than 30 days. Query resolution rate is '',
                    ShownField (q_resolutionRate queries),
                    Lit ''% against target of 98%. <strong>CRA follow-up recommended for aging queries.</strong>''],
                 in_priority = (if js_gt (num (over30 queries)) (Num 500)
                                then InsightCritical else InsightHigh),
                 in_affectedSites = Some [],
                 in_generatedAt = now,
                 in_source = ''CPID_EDC_Metrics.Query Report - Cumulative''\<rparr>]
          else [])
       @ [\<lparr>in_id = 3, in_kind = Trend, in_icon = BarChart,
           in_title = ''Data Quality Index Summary'',
           in_summary =
             [Lit ''Current DQI is <strong>'', Shown dqi,
              Lit ''%</strong> based on weighted composite of safety resolution (30%), query resolution (25%), visit/page completeness (20%), lab/coding readiness (15%), and SDV/signatures (10%). <strong>Target: 95%</strong>''],
           in_priority = (if js_lt dqi (Num 80) then InsightHigh else InsightInfo),
           in_affectedSites = Some [],
           in_generatedAt = now,
           in_source = ''Derived from validated pre-computed metrics''\<rparr>])))))"

datatype role = Safety | CRA | Site | DQT

datatype rec_priority = CRITICAL | HIGH | MEDIUM

record recommendation =
  rc_id :: nat
  rc_role :: role
  rc_priority :: rec_priority
  rc_action :: string
  rc_target :: rendered
  rc_rationale :: rendered
  rc_deadline :: int
  rc_estimatedImpact :: rendered
  rc_source :: string

text \<open>The deadline \<open>Date.now() + d * 24 * 60 * 60 * 1000\<close>, as a day number.\<close>

definition deadline :: "int \<Rightarrow> int \<Rightarrow> int" where
  "deadline now d = dayOf (real_of_int (now + d * msPerDay))"

text \<open>\<open>Math.round(queries.aging['>30 days'] / queries.total * 100)\<close>.\<close>

definition agingShare :: "queries_t \<Rightarrow> jsnum" where
  "agingShare queries =
     js_round (js_mul (js_div (num (over30 queries)) (num (q_total queries))) (Num 100))"

definition generateAgentRecommendations_v2 ::
  "raw_snapshot \<Rightarrow> saes_t \<Rightarrow> queries_t \<Rightarrow> signatures_t \<Rightarrow> lab_t \<Rightarrow> coding_t \<Rightarrow> int
     \<Rightarrow> recommendation list" where
  "generateAgentRecommendations_v2 raw saes queries signatures lab coding now =
     (if js_gt (num (sae_open saes)) (Num 0)
      then [\<lparr>rc_id = 1, rc_role = Safety, rc_priority = CRITICAL,
             rc_action = ''Expedite SAE Review & Resolution'',
             rc_target = [Locale (Num (or0 (sae_open saes))), Lit '' open safety events''],
             rc_rationale = [Locale (Num (or0 (patientsWithOpenSAE saes))),
                             Lit '' patients with open SAE blocking DB lock''],
             rc_deadline = deadline now 7,
             rc_estimatedImpact = [Lit ''Unblocks submission readiness''],
             rc_source = ''SAE_Dashboard''\<rparr>]
      else [])
     @ (if js_gt (num (over30 queries)) (Num 0)
        then [\<lparr>rc_id = 2, rc_role = CRA, rc_priority = HIGH,
               rc_action = ''Address Aging Queries'',
               rc_target = [Locale (Num (or0 (over30 queries))), Lit '' queries >30 days''],
               rc_rationale = [Lit ''Resolution rate: '', ShownField (q_resolutionRate queries),
                               Lit ''% (target: 98%)''],
               rc_deadline = deadline now 14,
               rc_estimatedImpact = [Lit ''+'', Shown (agingShare queries), Lit ''% resolution rate''],
               rc_source = ''CPID_EDC_Metrics''\<rparr>]
        else [])
     @ (if js_gt (num (sig_overdue signatures)) (Num 0)
        then [\<lparr>rc_id = 3, rc_role = Site, rc_priority = HIGH,
               rc_action = ''Complete Overdue PI Signatures'',
               rc_target = [Locale (Num (or0 (sig_overdue signatures))), Lit '' overdue signatures''],
               rc_rationale = [Lit ''PI signature completion required before submission''],
               rc_deadline = deadline now 14,
               rc_estimatedImpact = [Lit ''Improves DQI by 5%''],
               rc_source = ''CPID_EDC_Metrics.PI Signature Report''\<rparr>]
        else [])
     @ (if js_gt (num (totalIssues lab)) (Num 0)
        then [\<lparr>rc_id = 4, rc_role = DQT, rc_priority = MEDIUM,
               rc_action = ''Resolve Lab Data Issues'',
               rc_target = [Locale (Num (or0 (totalIssues lab))), Lit '' lab issues''],
               rc_rationale = [Lit ''Missing lab names/ranges impact data completeness''],
               rc_deadline = deadline now 21,
               rc_estimatedImpact = [Lit ''Lab score improvement''],
               rc_source = ''Missing_Lab_Name_and_Ranges''\<rparr>]
        else [])
     @ (if js_gt (num (totalUncoded coding)) (Num 0)
        then [\<lparr>rc_id = 5, rc_role = DQT, rc_priority = MEDIUM,
               rc_action = ''Complete Term Coding'',
               rc_target = [Locale (Num (or0 (totalUncoded coding))), Lit '' uncoded terms''],
               rc_rationale = [Lit ''MedDRA/WHO-DD coding required for submission''],
               rc_deadline = deadline now 21,
               rc_estimatedImpact = [Lit ''Coding readiness''],
               rc_source = ''GlobalCodingReport''\<rparr>]
        else [])"

text \<open>
  The older generator, again with \<open>toLocaleString\<close> on the properties themselves. The
  fourth recommendation has no guard.
\<close>

definition generateAgentRecommendations_v1 ::
  "raw_snapshot \<Rightarrow> saes_t \<Rightarrow> queries_t \<Rightarrow> real \<Rightarrow> int \<Rightarrow> js_error + recommendation list" where
  "generateAgentRecommendations_v1 raw saes queries sitesAtRisk now =
     then_do (if js_gt (num (sae_open saes)) (Num 0)
              then then_do (toLocaleString (sae_open saes)) (\<lambda>openText.
                   then_do (toLocaleString (patientsWithOpenSAE saes)) (\<lambda>patientsText.
                   Inr [\<lparr>rc_id = 1, rc_role = Safety, rc_priority = CRITICAL,
                          rc_action = ''Expedite SAE Review & Resolution'',
                          rc_target = [openText, Lit '' open safety events''],
                          rc_rationale = [patientsText,
                            Lit '' patients with open SAE blocking database lock''],
                          rc_deadline = deadline now 7,
                          rc_estimatedImpact = [Lit ''Unblocks submission readiness''],
                          rc_source = ''SAE_Dashboard''\<rparr>]))
              else Inr []) (\<lambda>first.
     then_do (if js_gt (num (over30 queries)) (Num 0)
              then then_do (toLocaleString (over30 queries)) (\<lambda>agingText.
                   Inr [\<lparr>rc_id = 2, rc_role = CRA, rc_priority = HIGH,
                          rc_action = ''Address Aging Queries'',
                          rc_target = [agingText, Lit '' queries >30 days''],
                          rc_rationale =
                            [Lit ''Queries aging beyond 30 days indicate site follow-up delays''],
                          rc_deadline = deadline now 14,
                          rc_estimatedImpact =
                            [Lit ''+'', Shown (agingShare queries), Lit ''% resolution rate''],
                          rc_source = ''CPID_EDC_Metrics.Query Report''\<rparr>])
              else Inr []) (\<lambda>second.
     then_do (toLocaleString (q_open queries)) (\<lambda>openQueriesText.
     Inr (first @ second
       @ (if sitesAtRisk > 0
          then [\<lparr>rc_id = 3, rc_role = CRA, rc_priority = MEDIUM,
                 rc_action = ''Schedule Site Visits'',
                 rc_target = [Locale (Num sitesAtRisk), Lit '' sites with open safety events''],
                 rc_rationale = [Lit ''Sites with open SAEs require on-site intervention''],
                 rc_deadline = deadline now 21,
                 rc_estimatedImpact = [Lit ''DQI improvement at flagged sites''],
                 rc_source = ''Site snapshot''\<rparr>]
          else [])
       @ [\<lparr>rc_id = 4, rc_role = DQT,
           rc_priority = (if js_lt (num (q_resolutionRate queries)) (Num 90) then HIGH else MEDIUM),
           rc_action = ''Query Resolution Campaign'',
           rc_target = [openQueriesText, Lit '' open queries across studies''],
           rc_rationale = [Lit ''Current resolution rate '', ShownField (q_resolutionRate queries),
                           Lit ''% below target 98%''],
           rc_deadline = deadline now 14,
           rc_estimatedImpact = [Lit ''Clean patient % increase''],
           rc_source = ''CPID_EDC_Metrics''\<rparr>]))))"

text \<open>
  What the older \<open>getRealDashboardData\<close> returns as \<open>executiveKPIs.readinessStatus\<close>
  for a loaded snapshot, or the exception it ends in. The ladder sets the status first;
  the two generators are called next, with the defaulted \<open>sitesAtRisk\<close>; the result is built
  only after both have returned, and nothing else on the way can throw.
\<close>

definition readinessReturned_v1 :: "raw_snapshot \<Rightarrow> int \<Rightarrow> js_error + readiness" where
  "readinessReturned_v1 raw now =
     (let queries = or_empty (raw_queries raw) no_queries;
          saes = or_empty (raw_saes raw) no_saes;
          dqi = dqi_v1 raw;
          sitesAtRisk = or0 (sitesWithOpenSAE saes);
          readinessStatus = readinessStatus_v1 raw
      in then_do (generateAIInsights_v1 raw dqi sitesAtRisk saes queries now) (\<lambda>aiInsights.
         then_do (generateAgentRecommendations_v1 raw saes queries sitesAtRisk now)
           (\<lambda>agentRecommendations. Inr readinessStatus)))"

section \<open>The dashboard model of the seven-weight adapter\<close>

datatype stamp = Given string | Clock int

text \<open>\<open>s || d\<close> on a string property: \<open>undefined\<close> and the empty string are falsy.\<close>

definition or_string :: "string option \<Rightarrow> 'a \<Rightarrow> (string \<Rightarrow> 'a) \<Rightarrow> 'a" where
  "or_string x d f = (case x of None \<Rightarrow> d | Some t \<Rightarrow> if t = [] then d else f t)"

record study_t =
  sd_id :: string
  sd_name :: string
  sd_phase :: string
  sd_sponsor :: string
  sd_totalPatients :: real
  sd_activeSites :: real
  sd_countries :: real
  sd_regions :: nat

record kpi_dqi =
  kd_current :: jsnum
  kd_previous :: jsnum
  kd_target :: real
  kd_trend :: string

record kpi_clean =
  kc_current :: real
  kc_total :: real
  kc_percentage :: real
  kc_previousPercentage :: real
  kc_trend :: string

record kpi_sites =
  ks_current :: real
  ks_previous :: real
  ks_trend :: string

record kpi_saes =
  ko_current :: real
  ko_critical :: int
  ko_previous :: real
  ko_trend :: string

record kpi_query =
  kq_current :: real
  kq_target :: real
  kq_trend :: string

record executiveKPIs =
  ek_dqi :: kpi_dqi
  ek_cleanPatients :: kpi_clean
  ek_sitesAtRisk :: kpi_sites
  ek_openSAEs :: kpi_saes
  ek_readinessStatus :: readiness
  ek_queryResolution :: kpi_query

definition totalUniquePatients_v2 :: "saes_t \<Rightarrow> real" where
  "totalUniquePatients_v2 saes = of_int (round_half_up (fmul (or0 (patientsWithOpenSAE saes)) 3.5))"

definition cleanPatients_v2 :: "saes_t \<Rightarrow> real" where
  "cleanPatients_v2 saes =
     max 0 (fsub (totalUniquePatients_v2 saes) (or0 (patientsWithOpenSAE saes)))"

definition cleanPatientPercent_v2 :: "saes_t \<Rightarrow> real" where
  "cleanPatientPercent_v2 saes =
     (if totalUniquePatients_v2 saes > 0
      then of_int (round_half_up
             (fmul (fdiv (cleanPatients_v2 saes) (totalUniquePatients_v2 saes)) 100))
      else 0)"

definition executiveKPIs_v2 :: "raw_snapshot \<Rightarrow> executiveKPIs" where
  "executiveKPIs_v2 raw =
     (let queries = or_empty (raw_queries raw) no_queries;
          saes = or_empty (raw_saes raw) no_saes;
          dqi = dqi_v2 raw
      in \<lparr>ek_dqi = \<lparr>kd_current = dqi, kd_previous = js_max (Num 0) (js_sub dqi (Num 3)),
                     kd_target = 95, kd_trend = ''up''\<rparr>,
          ek_cleanPatients =
            \<lparr>kc_current = cleanPatients_v2 saes, kc_total = totalUniquePatients_v2 saes,
             kc_percentage = cleanPatientPercent_v2 saes,
             kc_previousPercentage = max 0 (fsub (cleanPatientPercent_v2 saes) 2),
             kc_trend = ''up''\<rparr>,
          ek_sitesAtRisk =
            \<lparr>ks_current = or0 (sitesWithOpenSAE saes),
             ks_previous = fadd (or0 (sitesWithOpenSAE saes)) 15, ks_trend = ''down''\<rparr>,
          ek_openSAEs =
            \<lparr>ko_current = or0 (sae_open saes),
             ko_critical = \<lfloor>fmul (or0 (sae_open saes)) (lit 0.15)\<rfloor>,
             ko_previous = fadd (or0 (sae_open saes)) 200, ko_trend = ''down''\<rparr>,
          ek_readinessStatus = readinessStatus_v2 raw,
          ek_queryResolution =
            \<lparr>kq_current = or0 (q_resolutionRate queries), kq_target = 98, kq_trend = ''up''\<rparr>\<rparr>)"

datatype pass_fail = Pass | Fail

record criterion =
  ct_id :: string
  ct_label :: string
  ct_threshold :: string
  ct_current :: rendered
  ct_status :: pass_fail
  ct_source :: string

text \<open>The two thresholds written with a greater-or-equal sign are spelled \<open>>=\<close> here.\<close>

definition readinessCriteria_v2 :: "raw_snapshot \<Rightarrow> criterion list" where
  "readinessCriteria_v2 raw =
     (let queries = or_empty (raw_queries raw) no_queries;
          saes = or_empty (raw_saes raw) no_saes;
          cleanPatientPercent = cleanPatientPercent_v2 saes
      in [\<lparr>ct_id = ''sae'', ct_label = ''Open SAEs'', ct_threshold = ''= 0'',
            ct_current = localeOr0 (sae_open saes),
            ct_status = (if sae_open saes = Some 0 then Pass else Fail),
            ct_source = ''SAE_Dashboard (DM + Safety)''\<rparr>,
          \<lparr>ct_id = ''clean'', ct_label = ''Clean Patient %'', ct_threshold = ''>= 95%'',
            ct_current = [Shown (Num cleanPatientPercent), Lit ''%''],
            ct_status = (if cleanPatientPercent \<ge> 95 then Pass else Fail),
            ct_source = ''Derived from patient snapshot''\<rparr>,
          \<lparr>ct_id = ''query'', ct_label = ''Query Resolution %'', ct_threshold = ''>= 98%'',
            ct_current = [Shown (Num (or0 (q_resolutionRate queries))), Lit ''%''],
            ct_status = (if or0 (q_resolutionRate queries) \<ge> 98 then Pass else Fail),
            ct_source = ''CPID_EDC_Metrics''\<rparr>,
          \<lparr>ct_id = ''critical_queries'', ct_label = ''Queries >30 days'', ct_threshold = ''= 0'',
            ct_current = localeOr0 (over30 queries),
            ct_status = (if or0 (over30 queries) = 0 then Pass else Fail),
            ct_source = ''CPID_EDC_Metrics''\<rparr>])"

record bn_queries =
  bq_total :: real
  bq_open :: real
  bq_closed :: real
  bq_resolutionRate :: real
  bq_aging :: query_aging

record overdueByDays =
  od_1_7 :: real
  od_8_14 :: real
  od_15_30 :: real
  od_over30 :: real

record bn_visits =
  bv_total :: jsnum
  bv_completed :: real
  bv_overdue :: real
  bv_upcoming :: real
  bv_overdueByDays :: overdueByDays

record bn_lab =
  bl_missingRanges :: real
  bl_missingLabNames :: real
  bl_unreconciled :: real

record bn_coding =
  bc_totalTerms :: real
  bc_coded :: jsnum
  bc_uncoded :: real
  bc_meddraIssues :: real
  bc_whoddIssues :: real

record bn_sdv =
  bs_totalForms :: real
  bs_verified :: real
  bs_pending :: real
  bs_verificationRate :: real

record bn_signatures =
  bg_required :: real
  bg_completed :: real
  bg_pending :: real
  bg_overdue :: real

record bottlenecks =
  bn_q :: bn_queries
  bn_v :: bn_visits
  bn_l :: bn_lab
  bn_c :: bn_coding
  bn_s :: bn_sdv
  bn_g :: bn_signatures

text \<open>\<open>coding.meddra?.total\<close> and its three siblings.\<close>

definition via :: "'a option \<Rightarrow> ('a \<Rightarrow> real option) \<Rightarrow> real option" where
  "via x f = (case x of None \<Rightarrow> None | Some v \<Rightarrow> f v)"

definition rounded :: "real \<Rightarrow> real" where
  "rounded x = of_int (round_half_up x)"

definition bottlenecks_v2 :: "raw_snapshot \<Rightarrow> bottlenecks" where
  "bottlenecks_v2 raw =
     (let queries = or_empty (raw_queries raw) no_queries;
          visits = or_empty (raw_visits raw) no_visits;
          lab = or_empty (raw_lab raw) no_lab;
          coding = or_empty (raw_coding raw) no_coding;
          sdv = or_empty (raw_sdv raw) no_sdv;
          signatures = or_empty (raw_signatures raw) no_signatures;
          edrr = or_empty (raw_edrr raw) no_edrr
      in \<lparr>bn_q = \<lparr>bq_total = or0 (q_total queries), bq_open = or0 (q_open queries),
                   bq_closed = or0 (q_closed queries),
                   bq_resolutionRate = or0 (q_resolutionRate queries),
                   bq_aging = or_empty (q_aging queries)
                     \<lparr>ag_0_7 = Some 0, ag_8_14 = Some 0, ag_15_30 = Some 0, ag_over30 = Some 0\<rparr>\<rparr>,
          bn_v = \<lparr>bv_total = js_or (js_add (num (totalMissing visits))
                                         (js_mul (num (overdue30Days visits)) (Num 2)))
                                 (Num 1000),
                   bv_completed = (if js_gt (num (totalMissing visits)) (Num 0)
                                   then rounded (fmul (or0 (totalMissing visits)) 5) else 5000),
                   bv_overdue = or0 (totalMissing visits),
                   bv_upcoming = rounded (fmul (or0 (totalMissing visits)) 0.5),
                   bv_overdueByDays =
                     \<lparr>od_1_7 = rounded (fmul (or0 (totalMissing visits)) (lit 0.3)),
                      od_8_14 = rounded (fmul (or0 (totalMissing visits)) 0.25),
                      od_15_30 = rounded (fmul (or0 (totalMissing visits)) 0.25),
                      od_over30 = or_num (overdue30Days visits)
                                    (rounded (fmul (or0 (totalMissing visits)) (lit 0.2)))\<rparr>\<rparr>,
          bn_l = \<lparr>bl_missingRanges = rounded (fmul (or0 (totalIssues lab)) (lit 0.4)),
                   bl_missingLabNames = rounded (fmul (or0 (totalIssues lab)) (lit 0.3)),
                   bl_unreconciled = or0 (openIssues edrr)\<rparr>,
          bn_c = \<lparr>bc_totalTerms = fadd (or0 (via (meddra coding) cd_total))
                                        (or0 (via (whodd coding) cd_total)),
                   bc_coded =
                     js_add (js_or (js_sub (num (via (meddra coding) cd_total))
                                           (num (via (meddra coding) cd_uncoded))) (Num 0))
                            (js_or (js_sub (num (via (whodd coding) cd_total))
                                           (num (via (whodd coding) cd_uncoded))) (Num 0)),
                   bc_uncoded = or0 (totalUncoded coding),
                   bc_meddraIssues = or0 (via (meddra coding) cd_uncoded),
                   bc_whoddIssues = or0 (via (whodd coding) cd_uncoded)\<rparr>,
          bn_s = \<lparr>bs_totalForms = or0 (sdv_total sdv), bs_verified = or0 (sdv_verified sdv),
                   bs_pending = or0 (sdv_pending sdv),
                   bs_verificationRate = or0 (verificationRate sdv)\<rparr>,
          bn_g = \<lparr>bg_required = fadd (fadd (or0 (sig_pending signatures)) (or0 (sig_overdue signatures)))
                                      50000,
                   bg_completed = 50000,
                   bg_pending = or0 (sig_pending signatures),
                   bg_overdue = or0 (sig_overdue signatures)\<rparr>\<rparr>)"

record patient =
  pt_id :: rendered
  pt_siteId :: rendered
  pt_site :: rendered
  pt_status :: string
  pt_dqi :: int
  pt_isClean :: bool
  pt_missingVisits :: int
  pt_missingPages :: int
  pt_openQueries :: int
  pt_labIssues :: int
  pt_saeStatus :: string
  pt_saeCount :: nat
  pt_lastActivity :: int

text \<open>
  The number of iterations of \<open>for (let i = 1; i <= Math.min(10, b); i++)\<close>.
\<close>

definition iterations :: "real \<Rightarrow> nat" where
  "iterations b = nat \<lfloor>min 10 b\<rfloor>"

text \<open>One flagged patient; \<open>rnd\<close> holds the draws from this iteration on, six are used.\<close>

definition flaggedPatient_v2 :: "int \<Rightarrow> (nat \<Rightarrow> real) \<Rightarrow> nat \<Rightarrow> patient" where
  "flaggedPatient_v2 now rnd i =
     \<lparr>pt_id = [Lit ''PAT-'', Pad4 i],
      pt_siteId = [Lit ''Site '', Shown (Num (100 + real i))],
      pt_site = [Lit ''Clinical Site '', Shown (Num (100 + real i))],
      pt_status = ''flagged'',
      pt_dqi = round_half_up (fadd 30 (fmul (rnd 0) 40)),
      pt_isClean = False,
      pt_missingVisits = \<lfloor>fmul (rnd 1) 3\<rfloor>,
      pt_missingPages = \<lfloor>fmul (rnd 2) 5\<rfloor>,
      pt_openQueries = \<lfloor>fmul (rnd 3) 10\<rfloor> + 1,
      pt_labIssues = \<lfloor>fmul (rnd 4) 3\<rfloor>,
      pt_saeStatus = ''open'',
      pt_saeCount = 1,
      pt_lastActivity =
        dayOf (fsub (real_of_int now)
                 (fmul (fmul (fmul (fmul (fmul (rnd 5) 7) 24) 60) 60) 1000))\<rparr>"

text \<open>
  The loop, with the loop variable \<open>i\<close>, the draws that are left, and the number of
  iterations still to run.
\<close>

fun flaggedPatients_loop :: "int \<Rightarrow> (nat \<Rightarrow> real) \<Rightarrow> nat \<Rightarrow> nat \<Rightarrow> patient list" where
  "flaggedPatients_loop now rnd i 0 = []"
| "flaggedPatients_loop now rnd i (Suc n) =
     flaggedPatient_v2 now rnd i # flaggedPatients_loop now (skip 6 rnd) (Suc i) n"

definition generateFlaggedPatients_v2 :: "raw_snapshot \<Rightarrow> int \<Rightarrow> (nat \<Rightarrow> real) \<Rightarrow> patient list" where
  "generateFlaggedPatients_v2 raw now rnd =
     (let saes = or_empty (raw_saes raw) no_saes
      in flaggedPatients_loop now rnd 1 (iterations (or_num (patientsWithOpenSAE saes) 5)))"

record sae_item =
  se_id :: rendered
  se_patientId :: rendered
  se_siteId :: rendered
  se_site :: rendered
  se_event :: string
  se_severity :: string
  se_status :: string
  se_daysOpen :: int
  se_reportedDate :: int
  se_blocking :: bool

definition saeItem :: "int \<Rightarrow> (nat \<Rightarrow> real) \<Rightarrow> nat \<Rightarrow> sae_item" where
  "saeItem now rnd i =
     \<lparr>se_id = [Lit ''SAE-'', Pad4 (1000 + i)],
      se_patientId = [Lit ''PAT-'', Pad4 i],
      se_siteId = [Lit ''Site '', Shown (Num (100 + real i))],
      se_site = [Lit ''Clinical Site '', Shown (Num (100 + real i))],
      se_event = [''Adverse Cardiac Event'', ''Severe Allergic Reaction'', ''Hospitalization'',
                  ''Laboratory Abnormality''] ! (i mod 4),
      se_severity = ''Serious'',
      se_status = ''Open'',
      se_daysOpen = \<lfloor>fmul (rnd 0) 45\<rfloor> + 5,
      se_reportedDate =
        dayOf (fsub (real_of_int now)
                 (fmul (fmul (fmul (fmul (fmul (rnd 1) 60) 24) 60) 60) 1000)),
      se_blocking = (i \<le> 5)\<rparr>"

fun saeList_loop :: "int \<Rightarrow> (nat \<Rightarrow> real) \<Rightarrow> nat \<Rightarrow> nat \<Rightarrow> sae_item list" where
  "saeList_loop now rnd i 0 = []"
| "saeList_loop now rnd i (Suc n) = saeItem now rnd i # saeList_loop now (skip 2 rnd) (Suc i) n"

definition generateSAEList :: "raw_snapshot \<Rightarrow> int \<Rightarrow> (nat \<Rightarrow> real) \<Rightarrow> sae_item list" where
  "generateSAEList raw now rnd =
     (let saes = or_empty (raw_saes raw) no_saes
      in saeList_loop now rnd 1 (iterations (or_num (sae_open saes) 5)))"

record trends_t =
  tr_dqi :: "jsobj list"
  tr_cleanPatients :: "jsobj list"
  tr_openQueries :: "jsobj list"

record dashboard_model =
  dm_lastUpdated :: stamp
  dm_previousSnapshotDate :: int
  dm_dataSource :: string
  dm_governanceStatement :: "string option"
  dm_extractionStats :: "string option"
  dm_study :: study_t
  dm_executiveKPIs :: executiveKPIs
  dm_readinessCriteria :: "criterion list"
  dm_regions :: "region_row list"
  dm_topSites :: "site_row list"
  dm_bottomSites :: "site_row list"
  dm_patients :: "patient list"
  dm_bottlenecks :: bottlenecks
  dm_saes :: "sae_item list"
  dm_aiInsights :: "insight list"
  dm_agentRecommendations :: "recommendation list"
  dm_trends :: trends_t

definition study_v2 :: "raw_snapshot \<Rightarrow> study_t" where
  "study_v2 raw =
     \<lparr>sd_id = ''MULTI-STUDY'',
      sd_name = ''Combined Clinical Trial Analysis (23 Studies)'',
      sd_phase = ''Phase III'',
      sd_sponsor = ''NEST 2.0 Hackathon'',
      sd_totalPatients = totalUniquePatients_v2 (or_empty (raw_saes raw) no_saes),
      sd_activeSites = countTotalSites (raw_regions raw),
      sd_countries = countTotalCountries (raw_regions raw),
      sd_regions = length (entries (raw_regions raw))\<rparr>"

text \<open>
  The draws of one run, in the order the adapter makes them: the generated DQI trend (seven
  draws, when the series of the snapshot is not used), the flagged patients (six each), the
  SAE list (two each), the clean-patient trend (seven) and the open-query trend.
\<close>

definition drawsBeforePatients :: "raw_snapshot \<Rightarrow> nat" where
  "drawsBeforePatients raw = (if degenerate (or_empty (raw_dqiTrend raw) []) then 7 else 0)"

definition drawsBeforeSAEs :: "raw_snapshot \<Rightarrow> nat" where
  "drawsBeforeSAEs raw =
     drawsBeforePatients raw
       + 6 * iterations (or_num (patientsWithOpenSAE (or_empty (raw_saes raw) no_saes)) 5)"

definition drawsBeforeTrends :: "raw_snapshot \<Rightarrow> nat" where
  "drawsBeforeTrends raw =
     drawsBeforeSAEs raw + 2 * iterations (or_num (sae_open (or_empty (raw_saes raw) no_saes)) 5)"

definition trends_v2 :: "raw_snapshot \<Rightarrow> host_clock \<Rightarrow> (nat \<Rightarrow> real) \<Rightarrow> trends_t" where
  "trends_v2 raw clk rnd =
     (let queries = or_empty (raw_queries raw) no_queries;
          saes = or_empty (raw_saes raw) no_saes
      in \<lparr>tr_dqi = dqiTrendOf (raw_dqiTrend raw) (dqi_v2 raw) clk rnd,
          tr_cleanPatients =
            generateTrendData (Num (cleanPatientPercent_v2 saes)) 7 False clk
              (skip (drawsBeforeTrends raw) rnd),
          tr_openQueries =
            generateTrendData (Num (or0 (q_open queries))) 7 True clk
              (skip (drawsBeforeTrends raw + 7) rnd)\<rparr>)"

text \<open>The body of \<open>getRealDashboardData\<close> once the snapshot is loaded.\<close>

definition dashboardFrom_v2 ::
  "raw_snapshot \<Rightarrow> host_clock \<Rightarrow> (nat \<Rightarrow> real) \<Rightarrow> dashboard_model" where
  "dashboardFrom_v2 raw clk rnd =
     \<lparr>dm_lastUpdated = or_string (raw_lastUpdated raw) (Clock (clk_now clk)) Given,
      dm_previousSnapshotDate = clk_now clk - 7 * msPerDay,
      dm_dataSource =
        or_string (raw_dataSource raw)
          ''Complete extraction from 9 file types across 23 studies'' (\<lambda>t. t),
      dm_governanceStatement = raw_governanceStatement raw,
      dm_extractionStats = raw_extractionStats raw,
      dm_study = study_v2 raw,
      dm_executiveKPIs = executiveKPIs_v2 raw,
      dm_readinessCriteria = readinessCriteria_v2 raw,
      dm_regions = transformRegionsData countryNames_v2 (entries (raw_regions raw)),
      dm_topSites = topSites (calculateSiteRankings countryNames_v2 (entries (raw_regions raw))),
      dm_bottomSites = bottomSites (calculateSiteRankings countryNames_v2 (entries (raw_regions raw))),
      dm_patients =
        generateFlaggedPatients_v2 raw (clk_now clk) (skip (drawsBeforePatients raw) rnd),
      dm_bottlenecks = bottlenecks_v2 raw,
      dm_saes = generateSAEList raw (clk_now clk) (skip (drawsBeforeSAEs raw) rnd),
      dm_aiInsights =
        generateAIInsights_v2 raw (dqi_v2 raw) (or_empty (raw_saes raw) no_saes)
          (or_empty (raw_queries raw) no_queries) (or_empty (raw_lab raw) no_lab)
          (or_empty (raw_visits raw) no_visits) (clk_now clk),
      dm_agentRecommendations =
        generateAgentRecommendations_v2 raw (or_empty (raw_saes raw) no_saes)
          (or_empty (raw_queries raw) no_queries) (or_empty (raw_signatures raw) no_signatures)
          (or_empty (raw_lab raw) no_lab) (or_empty (raw_coding raw) no_coding) (clk_now clk),
      dm_trends = trends_v2 raw clk rnd\<rparr>"

section \<open>Loading the snapshot and falling back to the fixture\<close>

text \<open>
  What the adapter hands out is the fixture \<open>MockData\<close> or a derived model. Of the fixture
  only its \<open>executiveKPIs\<close> property is spelled out; the caller tests it.
\<close>

datatype dashboard = MockData | Derived dashboard_model

definition MockData_executiveKPIs :: executiveKPIs where
  "MockData_executiveKPIs =
     \<lparr>ek_dqi = \<lparr>kd_current = Num (lit 87.3), kd_previous = Num (lit 84.1), kd_target = 95,
        kd_trend = ''up''\<rparr>,
      ek_cleanPatients = \<lparr>kc_current = 2156, kc_total = 2847, kc_percentage = lit 75.7,
        kc_previousPercentage = lit 72.3, kc_trend = ''up''\<rparr>,
      ek_sitesAtRisk = \<lparr>ks_current = 12, ks_previous = 15, ks_trend = ''down''\<rparr>,
      ek_openSAEs = \<lparr>ko_current = 8, ko_critical = 3, ko_previous = 11, ko_trend = ''down''\<rparr>,
      ek_readinessStatus = AtRisk,
      ek_queryResolution = \<lparr>kq_current = lit 94.2, kq_target = 98, kq_trend = ''up''\<rparr>\<rparr>"

fun executiveKPIs_of :: "dashboard \<Rightarrow> executiveKPIs option" where
  "executiveKPIs_of MockData = Some MockData_executiveKPIs"
| "executiveKPIs_of (Derived m) = Some (dm_executiveKPIs m)"

text \<open>
  The environment of \<open>loadRealData\<close>: the module-level cache, the embedded global
  \<open>RealData\<close> (\<open>None\<close> when it is not defined) and what the fetch of the JSON file does.
  A JSON text that holds no object (\<open>null\<close>) parses to a falsy value.
\<close>

datatype fetch_outcome = FetchRejected | ResponseNotOk | JsonRejected | JsonValue "raw_snapshot option"

record loader_env =
  RealDataCache :: "raw_snapshot option"
  RealData :: "raw_snapshot option"
  fetched :: fetch_outcome

definition loadRealData :: "loader_env \<Rightarrow> raw_snapshot option \<times> loader_env" where
  "loadRealData env =
     (case RealDataCache env of
        Some cached \<Rightarrow> (Some cached, env)
      | None \<Rightarrow>
          (case RealData env of
             Some embedded \<Rightarrow> (Some embedded, env\<lparr>RealDataCache := Some embedded\<rparr>)
           | None \<Rightarrow>
               (case fetched env of
                  JsonValue v \<Rightarrow> (v, env\<lparr>RealDataCache := v\<rparr>)
                | _ \<Rightarrow> (None, env))))"

definition getRealDashboardData_v2 ::
  "loader_env \<Rightarrow> host_clock \<Rightarrow> (nat \<Rightarrow> real) \<Rightarrow> dashboard \<times> loader_env" where
  "getRealDashboardData_v2 env clk rnd =
     (case loadRealData env of
        (None, env') \<Rightarrow> (MockData, env')
      | (Some raw, env') \<Rightarrow> (Derived (dashboardFrom_v2 raw clk rnd), env'))"

text \<open>
  \<open>ClinicalDashboard.initAsync\<close> up to the call of \<open>init\<close>: the data the dashboard
  renders. The adapter is \<open>None\<close> when \<open>getRealDashboardData\<close> is not a function, and
  otherwise the outcome of awaiting it: a rejection or a value.
\<close>

definition initAsync :: "bool \<Rightarrow> (js_error + dashboard) option \<Rightarrow> dashboard" where
  "initAsync useRealData adapter =
     (let loaded =
            (if useRealData
             then (case adapter of
                     None \<Rightarrow> MockData
                   | Some (Inl err) \<Rightarrow> MockData
                   | Some (Inr d) \<Rightarrow> d)
             else MockData)
      in if executiveKPIs_of loaded = None then MockData else loaded)"

definition fetchFailed :: "fetch_outcome \<Rightarrow> bool" where
  "fetchFailed f = (case f of JsonValue v \<Rightarrow> False | _ \<Rightarrow> True)"

section \<open>Consistent counters and sample inputs\<close>

text \<open>
  The conditions under which a score stays in range, one for each score. A category with a
  positive total needs its open (or uncoded) counter present, non-negative and at most the
  total; a precomputed rate, taken as 0 when absent, lies between 0 and 100; a counter that
  a formula reads without a default is present and non-negative; and the defaulted open
  count of a country or site with a positive total lies between 0 and that total.
\<close>

definition pair_ok :: "real option \<Rightarrow> real option \<Rightarrow> bool" where
  "pair_ok tot outstanding =
     (case tot of
        None \<Rightarrow> True
      | Some t \<Rightarrow>
          if t > 0 then (case outstanding of None \<Rightarrow> False | Some v \<Rightarrow> 0 \<le> v \<and> v \<le> t)
          else True)"

definition rate_ok :: "real option \<Rightarrow> bool" where
  "rate_ok x = (0 \<le> or0 x \<and> or0 x \<le> 100)"

definition present_nonneg :: "real option \<Rightarrow> bool" where
  "present_nonneg x = (case x of None \<Rightarrow> False | Some v \<Rightarrow> 0 \<le> v)"

definition node_ok :: "real option \<Rightarrow> real option \<Rightarrow> bool" where
  "node_ok tot outstanding =
     (if or0 tot > 0 then 0 \<le> or0 outstanding \<and> or0 outstanding \<le> or0 tot else True)"

text \<open>What the five-weight composite reads: the query rate and the SAE pair.\<close>

definition composite_v1_ok :: "raw_snapshot \<Rightarrow> bool" where
  "composite_v1_ok raw =
     (let queries = or_empty (raw_queries raw) no_queries;
          saes = or_empty (raw_saes raw) no_saes
      in rate_ok (q_resolutionRate queries) \<and> pair_ok (sae_total saes) (sae_open saes))"

text \<open>What the seven-weight composite reads.\<close>

definition composite_v2_ok :: "raw_snapshot \<Rightarrow> bool" where
  "composite_v2_ok raw =
     (let queries = or_empty (raw_queries raw) no_queries;
          saes = or_empty (raw_saes raw) no_saes;
          visits = or_empty (raw_visits raw) no_visits;
          lab = or_empty (raw_lab raw) no_lab;
          coding = or_empty (raw_coding raw) no_coding;
          sdv = or_empty (raw_sdv raw) no_sdv;
          signatures = or_empty (raw_signatures raw) no_signatures
      in rate_ok (q_resolutionRate queries) \<and> rate_ok (verificationRate sdv)
         \<and> pair_ok (sae_total saes) (sae_open saes)
         \<and> present_nonneg (totalMissing visits)
         \<and> present_nonneg (totalIssues lab)
         \<and> present_nonneg (sig_overdue signatures)
         \<and> (case meddra coding of None \<Rightarrow> True | Some m \<Rightarrow> pair_ok (cd_total m) (cd_uncoded m)))"

definition score_in_range :: "jsnum \<Rightarrow> bool" where
  "score_in_range x = (case x of Num v \<Rightarrow> 0 \<le> v \<and> v \<le> 100 | _ \<Rightarrow> False)"

definition site_ok :: "string \<times> string \<times> site_t \<Rightarrow> bool" where
  "site_ok leaf =
     (case leaf of (countryCode, siteId, siteData) \<Rightarrow>
        node_ok (st_total_queries siteData) (st_open_queries siteData))"

definition country_ok :: "string \<times> country_t \<Rightarrow> bool" where
  "country_ok country =
     (case country of (countryCode, countryData) \<Rightarrow>
        node_ok (c_total_queries countryData) (c_open_queries countryData))"

text \<open>A site with 10 patients, 100 queries and the given number of open ones.\<close>

definition sample_site :: "string \<Rightarrow> real \<Rightarrow> string \<times> site_t" where
  "sample_site siteId open_count =
     (siteId, \<lparr>st_patients = Some 10, st_total_queries = Some 100,
               st_open_queries = Some open_count\<rparr>)"

definition sample_country :: "real \<Rightarrow> real \<Rightarrow> (string \<times> site_t) list \<Rightarrow> country_t" where
  "sample_country total_count open_count site_list =
     \<lparr>total_sites = None, c_total_queries = Some total_count, c_open_queries = Some open_count,
      sites = Some site_list\<rparr>"

text \<open>A tree with ten sites in two countries, and a tree with three sites.\<close>

definition ten_sites :: "(string \<times> region_t) list" where
  "ten_sites =
     [(''Europe'',
       \<lparr>total_countries = None,
        countries = Some
          [(''DEU'', sample_country 600 150
              [sample_site ''S01'' 50, sample_site ''S02'' 0, sample_site ''S03'' 20,
               sample_site ''S04'' 40, sample_site ''S05'' 10, sample_site ''S06'' 30]),
           (''FRA'', sample_country 400 300
              [sample_site ''S07'' 60, sample_site ''S08'' 90, sample_site ''S09'' 70,
               sample_site ''S10'' 80])]\<rparr>)]"

definition three_sites :: "(string \<times> region_t) list" where
  "three_sites =
     [(''Asia'',
       \<lparr>total_countries = None,
        countries = Some
          [(''JPN'', sample_country 300 60
              [sample_site ''S01'' 30, sample_site ''S02'' 10, sample_site ''S03'' 20])]\<rparr>)]"

text \<open>
  A tree with ten site leaves in which the same country, with the same five sites and the
  same counters, is listed under two regions.
\<close>

definition five_sites :: country_t where
  "five_sites =
     sample_country 500 0
       [sample_site ''S01'' 0, sample_site ''S02'' 0, sample_site ''S03'' 0,
        sample_site ''S04'' 0, sample_site ''S05'' 0]"

definition twin_regions :: "(string \<times> region_t) list" where
  "twin_regions =
     [(''East'', \<lparr>total_countries = None, countries = Some [(''USA'', five_sites)]\<rparr>),
      (''West'', \<lparr>total_countries = None, countries = Some [(''USA'', five_sites)]\<rparr>)]"

text \<open>A site whose open counter exceeds its total, and a site where a product ties.\<close>

definition overdrawn_site :: "string \<times> site_t" where
  "overdrawn_site =
     (''S01'', \<lparr>st_patients = Some 1, st_total_queries = Some 10, st_open_queries = Some 100\<rparr>)"

definition tie_site :: "string \<times> site_t" where
  "tie_site =
     (''S01'', \<lparr>st_patients = Some 1, st_total_queries = Some 34, st_open_queries = Some 23\<rparr>)"

text \<open>The scenario snapshot with a trend series of its own, of one point.\<close>

definition supplied_series :: "jsobj list" where
  "supplied_series = [[(''date'', JStr ''2025-01-06''), (''value'', JNum (Num 60))]]"

definition supplied_snapshot :: raw_snapshot where
  "supplied_snapshot = scenario_snapshot\<lparr>raw_dqiTrend := Some supplied_series\<rparr>"

text \<open>The snapshot \<open>{}\<close>: every property is absent.\<close>

definition empty_snapshot :: raw_snapshot where
  "empty_snapshot =
     \<lparr>raw_queries = None, raw_saes = None, raw_visits = None, raw_lab = None,
      raw_coding = None, raw_sdv = None, raw_signatures = None, raw_edrr = None,
      raw_regions = None, raw_dqiTrend = None, raw_lastUpdated = None, raw_dataSource = None,
      raw_governanceStatement = None, raw_extractionStats = None\<rparr>"

text \<open>No cache, no embedded data, and a fetch that is rejected.\<close>

definition offline_env :: loader_env where
  "offline_env = \<lparr>RealDataCache = None, RealData = None, fetched = FetchRejected\<rparr>"

text \<open>
  A host on UTC at the given instant, and a host five hours behind UTC whose offset was
  four hours for local times before the given one.
\<close>

definition utc_clock :: "int \<Rightarrow> host_clock" where
  "utc_clock t = \<lparr>clk_now = t, clk_offset = (\<lambda>u. 0), clk_offset_local = (\<lambda>u. 0)\<rparr>"

definition west_clock :: "int \<Rightarrow> int \<Rightarrow> host_clock" where
  "west_clock t change =
     \<lparr>clk_now = t,
      clk_offset = (\<lambda>u. - 5 * 60 * 60 * 1000),
      clk_offset_local = (\<lambda>u. if u < change then - 4 * 60 * 60 * 1000 else - 5 * 60 * 60 * 1000)\<rparr>"

text \<open>The offsets of a host stay within one day.\<close>

definition offsets_bounded :: "host_clock \<Rightarrow> bool" where
  "offsets_bounded clk = (\<forall>t. \<bar>clk_offset_local clk t\<bar> \<le> msPerDay)"

section \<open>Rounding\<close>

lemma round_half_even_error: "\<bar>of_int (round_half_even q) - q\<bar> \<le> 1 / 2"
  unfolding round_half_even_def Let_def
  by (auto simp: abs_if) linarith+

lemma ulp_pos: "0 < ulp x"
  by (simp add: ulp_def)

lemma binade_le: "x \<noteq> 0 \<Longrightarrow> 2 powr of_int (binade x) \<le> \<bar>x\<bar>"
proof -
  assume "x \<noteq> 0"
  then have p: "0 < \<bar>x\<bar>" by simp
  have "of_int (binade x) \<le> log 2 \<bar>x\<bar>"
    by (simp add: binade_def)
  then have "2 powr of_int (binade x) \<le> 2 powr log 2 \<bar>x\<bar>"
    by (simp only: powr_le_cancel_iff)
  then show ?thesis using p by simp
qed

lemma ulp_le: "x \<noteq> 0 \<Longrightarrow> ulp x \<le> \<bar>x\<bar> / 2 ^ 52"
proof -
  assume nz: "x \<noteq> 0"
  have "ulp x = 2 powr of_int (binade x) / 2 powr 52"
    by (simp add: ulp_def powr_diff)
  also have "\<dots> = 2 powr of_int (binade x) / 2 ^ 52"
    by (simp add: powr_numeral)
  also have "\<dots> \<le> \<bar>x\<bar> / 2 ^ 52"
    using binade_le[OF nz] by (simp add: divide_right_mono)
  finally show ?thesis .
qed

lemma fl_error: "\<bar>fl x - x\<bar> \<le> \<bar>x\<bar> / 2 ^ 53"
proof (cases "x = 0")
  case True
  then show ?thesis by (simp add: fl_def)
next
  case False
  have u: "0 < ulp x" by (rule ulp_pos)
  have "fl x - x = (of_int (round_half_even (x / ulp x)) - x / ulp x) * ulp x"
    using False u by (simp add: fl_def field_simps)
  then have "\<bar>fl x - x\<bar> = \<bar>of_int (round_half_even (x / ulp x)) - x / ulp x\<bar> * ulp x"
    using u by (simp add: abs_mult)
  also have "\<dots> \<le> 1 / 2 * ulp x"
    using round_half_even_error[of "x / ulp x"] u by (intro mult_right_mono) auto
  also have "\<dots> \<le> 1 / 2 * (\<bar>x\<bar> / 2 ^ 52)"
    using ulp_le[OF False] by simp
  finally show ?thesis by simp
qed

lemma binade_eq:
  assumes "2 powr of_int e \<le> \<bar>x\<bar>" "\<bar>x\<bar> < 2 powr (of_int e + 1)"
  shows "binade x = e"
proof -
  have p: "0 < \<bar>x\<bar>"
    using assms(1) powr_gt_zero[of 2 "of_int e"] by linarith
  have "of_int e \<le> log 2 \<bar>x\<bar>"
    using assms(1) p by (simp add: le_log_iff)
  moreover have "log 2 \<bar>x\<bar> < of_int e + 1"
    using assms(2) p by (simp add: log_less_iff)
  ultimately show ?thesis
    unfolding binade_def by linarith
qed

lemma fl_eval_ge1:
  assumes "2 ^ n \<le> \<bar>x\<bar>" "\<bar>x\<bar> < 2 * 2 ^ n"
  shows "fl x = of_int (round_half_even (x * 2 ^ 52 / 2 ^ n)) * 2 ^ n / 2 ^ 52"
proof -
  have b: "binade x = int n"
    using assms by (intro binade_eq) (simp_all add: powr_realpow powr_add)
  have nz: "x \<noteq> 0"
  proof
    assume "x = 0"
    then have "(2::real) ^ n \<le> 0" using assms(1) by simp
    moreover have "(0::real) < 2 ^ n" by simp
    ultimately show False by linarith
  qed
  have u: "ulp x = 2 ^ n / 2 ^ 52"
    by (simp add: ulp_def b powr_diff powr_realpow powr_numeral)
  have "fl x = of_int (round_half_even (x / (2 ^ n / 2 ^ 52))) * (2 ^ n / 2 ^ 52)"
    using nz unfolding fl_def u by simp
  then show ?thesis by simp
qed

lemma fl_eval_lt1:
  assumes "1 \<le> \<bar>x\<bar> * 2 ^ n" "\<bar>x\<bar> * 2 ^ n < 2"
  shows "fl x = of_int (round_half_even (x * 2 ^ 52 * 2 ^ n)) / (2 ^ 52 * 2 ^ n)"
proof -
  have p: "(2::real) powr (- real n) = 1 / 2 ^ n"
    by (simp add: powr_minus powr_realpow field_simps)
  have q: "(2::real) powr (of_int (- int n) + 1) = 2 / 2 ^ n"
  proof -
    have "(2::real) powr (of_int (- int n) + 1) = 2 powr (- real n) * 2 powr 1"
      by (simp only: powr_add [symmetric]) simp
    then show ?thesis by (simp add: p)
  qed
  have "2 powr of_int (- int n) \<le> \<bar>x\<bar>" "\<bar>x\<bar> < 2 powr (of_int (- int n) + 1)"
    using assms unfolding q by (simp_all add: p field_simps)
  then have b: "binade x = - int n"
    by (rule binade_eq)
  have nz: "x \<noteq> 0" using assms(1) by auto
  have u: "ulp x = 1 / (2 ^ 52 * 2 ^ n)"
    by (simp add: ulp_def b powr_diff p powr_numeral field_simps)
  have "fl x = of_int (round_half_even (x / (1 / (2 ^ 52 * 2 ^ n)))) * (1 / (2 ^ 52 * 2 ^ n))"
    using nz unfolding fl_def u by simp
  then show ?thesis by (simp add: mult.assoc)
qed

lemma fl_zero: "fl 0 = 0"
  by (simp add: fl_def)

text \<open>The rounding of a number whose binary exponent is named.\<close>

lemmas fl_evals =
  fl_zero
  fl_eval_ge1[of 0] fl_eval_ge1[of 1] fl_eval_ge1[of 2] fl_eval_ge1[of 3] fl_eval_ge1[of 4]
  fl_eval_ge1[of 5] fl_eval_ge1[of 6] fl_eval_ge1[of 7] fl_eval_ge1[of 8] fl_eval_ge1[of 9]
  fl_eval_lt1[of _ 1] fl_eval_lt1[of _ 2] fl_eval_lt1[of _ 3] fl_eval_lt1[of _ 4]
  fl_eval_lt1[of _ 5]

lemmas js_arith = fadd_def fsub_def fmul_def fdiv_def lit_def round_half_even_def
  round_half_up_def js_sub_def js_gt_def js_max_def js_min_def

section \<open>Results on the composite DQI\<close>

lemma seven_weight_scenario: "dqi_v2 scenario_snapshot = Num 85"
proof -
  have s: "saeResolutionScore_v2 (or_empty (raw_saes scenario_snapshot) no_saes) = Num 100"
    by (simp add: saeResolutionScore_v2_def scenario_snapshot_def or_empty_def js_arith fl_evals)
  have q: "or0 (q_resolutionRate (or_empty (raw_queries scenario_snapshot) no_queries)) = 80"
    by (simp add: scenario_snapshot_def or_empty_def)
  have v: "visitScore (or_empty (raw_visits scenario_snapshot) no_visits) = Num 100"
    by (simp add: visitScore_def scenario_snapshot_def or_empty_def js_arith fl_evals)
  have l: "labScore (or_empty (raw_lab scenario_snapshot) no_lab) = Num 100"
    by (simp add: labScore_def scenario_snapshot_def or_empty_def js_arith fl_evals)
  have c: "codingScore (or_empty (raw_coding scenario_snapshot) no_coding) = Num 100"
    by (simp add: codingScore_def scenario_snapshot_def or_empty_def js_arith)
  have d: "or0 (verificationRate (or_empty (raw_sdv scenario_snapshot) no_sdv)) = 0"
    by (simp add: scenario_snapshot_def or_empty_def)
  have g: "signatureScore (or_empty (raw_signatures scenario_snapshot) no_signatures) = Num 100"
    by (simp add: signatureScore_def scenario_snapshot_def or_empty_def js_arith fl_evals)
  show ?thesis
    unfolding dqi_v2_def Let_def s q v l c d g
    by (simp add: js_arith fl_evals)
qed

lemma five_weight_scenario: "dqi_v1 scenario_snapshot = Num 87"
proof -
  have s: "saeResolutionScore_v1 (or_empty (raw_saes scenario_snapshot) no_saes) = Num 1"
    by (simp add: saeResolutionScore_v1_def scenario_snapshot_def or_empty_def js_arith fl_evals)
  have q: "or0 (q_resolutionRate (or_empty (raw_queries scenario_snapshot) no_queries)) = 80"
    by (simp add: scenario_snapshot_def or_empty_def)
  show ?thesis
    unfolding dqi_v1_def Let_def s q
    by (simp add: js_arith fl_evals)
qed

text \<open>
  C1 (as stated: the composite DQI of the scenario snapshot is 95). The adapters do not
  return 95 on the scenario snapshot.
\<close>

theorem scenario_dqi_not_95:
  "dqi_v2 scenario_snapshot \<noteq> Num 95 \<and> dqi_v1 scenario_snapshot \<noteq> Num 95"
  by (simp add: seven_weight_scenario five_weight_scenario)

text \<open>
  C1 (amended). On the scenario snapshot the seven-weight adapter returns 85: the SDV
  verification rate 0 scores 0, since a precomputed rate has no fail-open default, and the
  other six terms are 30 + 20 + 10 + 10 + 10 + 5. The five-weight adapter returns 87: it
  puts the fixed estimates 0.75, 0.85 and 0.90 in the place of the last three ratios, so
  the sum is 86.75 before rounding.
\<close>

theorem scenario_dqi:
  "dqi_v2 scenario_snapshot = Num 85 \<and> dqi_v1 scenario_snapshot = Num 87"
  by (simp add: seven_weight_scenario five_weight_scenario)

section \<open>Results on the readiness status\<close>

text \<open>
  C2 (as stated: with 5 open SAEs and a resolution rate of 90 the 100/85 ladder answers
  not-ready). The adapter with the 100/85 ladder does not answer not-ready there.
\<close>

theorem ladder_100_85_at_5_90:
  "readinessStatus_v2 (ladder_snapshot (Some 5) (Some 90)) \<noteq> NotReady"
  by (simp add: readinessStatus_v2_def ladder_snapshot_def or_empty_def)

text \<open>
  C2 (amended). When both counters are present, the status of the five-weight adapter is
  the ladder of the specification with ceiling 10 and floor 90, and the status of the
  seven-weight adapter is that ladder with ceiling 100 and floor 85. Under every pair of
  constants the ladder answers ready at (0, 98), and at (5, 90) it answers at-risk under
  both pairs.
\<close>

theorem readiness_ladder:
  "readinessStatus_v1 (raw\<lparr>raw_saes := Some (s\<lparr>sae_open := Some n\<rparr>),
        raw_queries := Some (q\<lparr>q_resolutionRate := Some r\<rparr>)\<rparr>) = classify 10 90 n r
   \<and> readinessStatus_v2 (raw\<lparr>raw_saes := Some (s\<lparr>sae_open := Some n\<rparr>),
        raw_queries := Some (q\<lparr>q_resolutionRate := Some r\<rparr>)\<rparr>) = classify 100 85 n r
   \<and> classify c f 0 98 = Ready
   \<and> classify 10 90 5 90 = AtRisk
   \<and> classify 100 85 5 90 = AtRisk"
  by (simp add: readinessStatus_v1_def readinessStatus_v2_def classify_def or_empty_def)

text \<open>
  C10. When the \<open>saes\<close> substructure has no \<open>open\<close> property (or is absent itself), the
  ladder of both adapters answers not-ready, whatever the query resolution rate is: the
  comparisons \<open>=== 0\<close> and \<open>< ceiling\<close> are both false on \<open>undefined\<close>. The seven-weight
  adapter returns that status in its model. The five-weight adapter returns nothing: after
  the ladder it builds the first insight, where \<open>saes.open.toLocaleString()\<close> ends the call
  in a TypeError.
\<close>

theorem absent_open_saes_not_ready:
  "sae_open (or_empty (raw_saes raw) no_saes) = None \<Longrightarrow>
     readinessStatus_v2 raw = NotReady
     \<and> ek_readinessStatus (dm_executiveKPIs (dashboardFrom_v2 raw clk rnd)) = NotReady
     \<and> readinessStatus_v1 raw = NotReady
     \<and> readinessReturned_v1 raw now = Inl TypeError"
  by (simp add: readinessStatus_v1_def readinessStatus_v2_def Let_def dashboardFrom_v2_def
      executiveKPIs_v2_def readinessReturned_v1_def generateAIInsights_v1_def then_do_def
      toLocaleString_def)

theorem absent_open_saes_not_ready_witness:
  "sae_open (or_empty (raw_saes (ladder_snapshot None (Some 99))) no_saes) = None
   \<and> readinessStatus_v2 (ladder_snapshot None (Some 99)) = NotReady
   \<and> ek_readinessStatus (dm_executiveKPIs
        (dashboardFrom_v2 (ladder_snapshot None (Some 99)) (utc_clock 0) (\<lambda>k. 0))) = NotReady
   \<and> readinessStatus_v1 (ladder_snapshot None (Some 99)) = NotReady
   \<and> readinessReturned_v1 (ladder_snapshot None (Some 99)) 0 = Inl TypeError"
proof -
  have h: "sae_open (or_empty (raw_saes (ladder_snapshot None (Some 99))) no_saes) = None"
    by (simp add: ladder_snapshot_def or_empty_def)
  show ?thesis
    using h absent_open_saes_not_ready [OF h, of "utc_clock 0" "\<lambda>k. 0" 0] by simp
qed

section \<open>Results on the range of the scores\<close>

lemma overdrawn_rate: "resolutionRateOf 10 100 = - 900"
  by (simp add: resolutionRateOf_def fmul_def fdiv_def fsub_def fl_evals round_half_even_def)

lemma overdrawn_score: "round_half_up (fadd (fmul (- 900) (lit (4 / 5))) 20) = - 700"
  by (simp add: js_arith fl_evals)

lemma overdrawn_site_score: "sr_dqi (siteRow names cc overdrawn_site) = - 700"
  by (simp add: siteRow_def overdrawn_site_def Let_def overdrawn_rate overdrawn_score)

lemma overdrawn_country_score:
  "cr_dqi (countryRow names (cc, sample_country 10 100 [])) = - 700"
  by (simp add: countryRow_def sample_country_def Let_def overdrawn_rate overdrawn_score)

lemma ladder_scores:
  "saeResolutionScore_v2 (or_empty (raw_saes (ladder_snapshot (Some 0) r)) no_saes) = Num 100"
  "saeResolutionScore_v1 (or_empty (raw_saes (ladder_snapshot (Some 0) r)) no_saes) = Num 1"
  "or0 (q_resolutionRate (or_empty (raw_queries (ladder_snapshot n (Some 200))) no_queries)) = 200"
  "visitScore (or_empty (raw_visits (ladder_snapshot n r)) no_visits) = Num 100"
  "labScore (or_empty (raw_lab (ladder_snapshot n r)) no_lab) = Num 100"
  "codingScore (or_empty (raw_coding (ladder_snapshot n r)) no_coding) = Num 100"
  "or0 (verificationRate (or_empty (raw_sdv (ladder_snapshot n r)) no_sdv)) = 0"
  "signatureScore (or_empty (raw_signatures (ladder_snapshot n r)) no_signatures) = Num 100"
  by (simp_all add: saeResolutionScore_v2_def saeResolutionScore_v1_def visitScore_def
      labScore_def codingScore_def signatureScore_def ladder_snapshot_def scenario_snapshot_def
      or_empty_def js_arith fl_evals)

lemma rate_200_dqi_v2: "dqi_v2 (ladder_snapshot (Some 0) (Some 200)) = Num 115"
  unfolding dqi_v2_def Let_def ladder_scores
  by (simp add: js_arith fl_evals)

lemma rate_200_dqi_v1: "dqi_v1 (ladder_snapshot (Some 0) (Some 200)) = Num 117"
  unfolding dqi_v1_def Let_def ladder_scores
  by (simp add: js_arith fl_evals)

lemma clamped_visit_score:
  "visitScore \<lparr>totalMissing = Some 5000, overdue30Days = Some 0\<rparr> = Num 0"
  by (simp add: visitScore_def js_arith fl_evals)

text \<open>
  C3 (the code at the failing inputs). A site with 10 queries of which 100 are open scores
  -700, and so does a country with these counters; a snapshot with a query resolution rate
  of 200 has the composite DQI 115 in the seven-weight adapter and 117 in the five-weight
  one. The visit score of the same adapter is held in range: 5000 missing visits score 0.
\<close>

theorem scores_leave_range:
  "sr_dqi (siteRow countryNames_v2 ''USA'' overdrawn_site) = - 700
   \<and> cr_dqi (countryRow countryNames_v2 (''USA'', sample_country 10 100 [])) = - 700
   \<and> dqi_v2 (ladder_snapshot (Some 0) (Some 200)) = Num 115
   \<and> dqi_v1 (ladder_snapshot (Some 0) (Some 200)) = Num 117
   \<and> visitScore \<lparr>totalMissing = Some 5000, overdue30Days = Some 0\<rparr> = Num 0"
  by (simp add: overdrawn_site_score overdrawn_country_score rate_200_dqi_v2 rate_200_dqi_v1
      clamped_visit_score)

section \<open>Results on sites and countries\<close>







lemma tie_rate: "resolutionRateOf 34 23 = 4553271682084141 / 140737488355328"
  by (simp add: resolutionRateOf_def fmul_def fdiv_def fsub_def fl_evals round_half_even_def)

lemma tie_clean_percent: "round_half_up (fmul (resolutionRateOf 34 23) (lit (17 / 20))) = 27"
  by (simp add: tie_rate fmul_def lit_def fl_evals round_half_even_def round_half_up_def)

text \<open>
  The formulas are those of the source, in its arithmetic. A site with 34 queries of which
  23 are open has the resolution rate 32.35294117647059, whose product with 0.85 is
  27.499999999999996 after rounding, so its clean percentage is 27; in exact arithmetic
  the product is 27.5.
\<close>

lemma tie_site_clean_percent:
  "sr_cleanPercent (siteRow names cc tie_site) = 27
   \<and> \<lfloor>(34 - 23) / 34 * 100 * 0.85 + 1 / 2 :: real\<rfloor> = 28"
  by (simp add: siteRow_def tie_site_def Let_def tie_clean_percent)


lemma take_middle_drop:
  assumes "i \<le> j"
  shows "take i xs @ take (j - i) (drop i xs) @ drop j xs = xs"
proof -
  have "drop j xs = drop (j - i) (drop i xs)"
    using assms by simp
  then show ?thesis
    by (metis append_take_drop_id)
qed

lemma all_sites_keys:
  "map (\<lambda>r. (sr_country r, sr_id r)) (allSites names t) = leafKeys t"
  unfolding leafKeys_def leafData_def allSites_def
  by (induction t)
     (auto simp: map_concat comp_def case_prod_beta siteRow_def Let_def
        intro!: arg_cong[where f = concat])

lemma all_sites_length: "length (allSites names t) = length (leafKeys t)"
  using arg_cong[OF all_sites_keys, of length names t] by simp

lemma all_sites_distinct: "distinct (leafKeys t) \<Longrightarrow> distinct (allSites names t)"
  using all_sites_keys[of names t] by (metis distinct_map)

lemma sample_rows_same_score:
  "sr_dqi (siteRow names cc (sample_site a v)) = sr_dqi (siteRow names cc (sample_site b v))"
  by (simp add: siteRow_def sample_site_def Let_def)

lemma insort_same_key:
  "\<forall>y\<in>set ys. f y = f x \<Longrightarrow> sorted (map f ys) \<Longrightarrow> insort_key f x ys = x # ys"
  by (cases ys) auto

lemma sort_key_same_key: "\<forall>y\<in>set ys. f y = k \<Longrightarrow> sort_key f ys = ys"
proof (induction ys)
  case Nil
  then show ?case by simp
next
  case (Cons a ys)
  then have s: "sort_key f ys = ys" by simp
  have "sorted (map f ys)"
    using Cons.prems by (simp add: sorted_iff_nth_mono)
  then show ?case
    using Cons.prems by (simp add: s insort_same_key)
qed

lemma twin_rows:
  "allSites names twin_regions
     = map (siteRow names ''USA'')
         [sample_site ''S01'' 0, sample_site ''S02'' 0, sample_site ''S03'' 0,
          sample_site ''S04'' 0, sample_site ''S05'' 0]
       @ map (siteRow names ''USA'')
         [sample_site ''S01'' 0, sample_site ''S02'' 0, sample_site ''S03'' 0,
          sample_site ''S04'' 0, sample_site ''S05'' 0]"
  by (simp add: allSites_def twin_regions_def five_sites_def sample_country_def entries_def
      or_empty_def)

lemma twin_sorted:
  "sort_key (\<lambda>s. - sr_dqi s) (allSites names twin_regions) = allSites names twin_regions"
proof (rule sort_key_same_key)
  show "\<forall>y\<in>set (allSites names twin_regions).
          - sr_dqi y = - sr_dqi (siteRow names ''USA'' (sample_site ''S01'' 0))"
    unfolding twin_rows
    using sample_rows_same_score[of names "''USA''" _ 0 "''S01''"] by simp
qed

text \<open>
  C5 (as stated: with at least 10 site leaves the two lists share no site). In a tree with
  ten site leaves where one country with its five sites is listed under two regions, the
  two lists hold the same five sites.
\<close>

theorem rankings_share_sites:
  "length (leafKeys twin_regions) = 10
   \<and> map sr_id (topSites (calculateSiteRankings countryNames_v2 twin_regions))
       = [''S01'', ''S02'', ''S03'', ''S04'', ''S05'']
   \<and> set (topSites (calculateSiteRankings countryNames_v2 twin_regions))
       = set (bottomSites (calculateSiteRankings countryNames_v2 twin_regions))"
proof (intro conjI)
  show "length (leafKeys twin_regions) = 10"
    by (simp add: leafKeys_def leafData_def twin_regions_def five_sites_def sample_country_def
        entries_def or_empty_def)
  show "map sr_id (topSites (calculateSiteRankings countryNames_v2 twin_regions))
       = [''S01'', ''S02'', ''S03'', ''S04'', ''S05'']"
    unfolding calculateSiteRankings_def Let_def twin_sorted
    by (simp add: twin_rows siteRow_def Let_def sample_site_def)
  show "set (topSites (calculateSiteRankings countryNames_v2 twin_regions))
       = set (bottomSites (calculateSiteRankings countryNames_v2 twin_regions))"
    unfolding calculateSiteRankings_def Let_def twin_sorted
    by (auto simp: twin_rows)
qed

text \<open>
  C5 (amended). The rows are sorted by descending score, rows of equal score staying in
  the order of the traversal, and the sorted list holds the same rows as the flat list.
  When the tree has at least 10 site leaves, the top list has 5 rows, the bottom list has 5
  rows, and the sorted list is the top list, then the rows in between, then the bottom
  list reversed; when moreover no pair of country code and site id occurs at two leaves,
  the two lists have no row in common. When the tree has exactly 3 site leaves, both lists
  hold all three: the bottom list is the top list reversed.
\<close>

theorem top_bottom_disjoint:
  "mset (sort_key (\<lambda>s. - sr_dqi s) (allSites names t)) = mset (allSites names t)
   \<and> sorted (map (\<lambda>s. - sr_dqi s) (sort_key (\<lambda>s. - sr_dqi s) (allSites names t)))
   \<and> filter (\<lambda>s. sr_dqi s = k) (sort_key (\<lambda>s. - sr_dqi s) (allSites names t))
       = filter (\<lambda>s. sr_dqi s = k) (allSites names t)
   \<and> (10 \<le> length (leafKeys t) \<longrightarrow>
        length (topSites (calculateSiteRankings names t)) = 5
        \<and> length (bottomSites (calculateSiteRankings names t)) = 5
        \<and> sort_key (\<lambda>s. - sr_dqi s) (allSites names t)
            = topSites (calculateSiteRankings names t)
              @ take (length (leafKeys t) - 10)
                  (drop 5 (sort_key (\<lambda>s. - sr_dqi s) (allSites names t)))
              @ rev (bottomSites (calculateSiteRankings names t))
        \<and> (distinct (leafKeys t) \<longrightarrow>
             set (topSites (calculateSiteRankings names t))
               \<inter> set (bottomSites (calculateSiteRankings names t)) = {}))
   \<and> (length (leafKeys t) = 3 \<longrightarrow>
        bottomSites (calculateSiteRankings names t) = rev (topSites (calculateSiteRankings names t))
        \<and> length (topSites (calculateSiteRankings names t)) = 3)"
proof (intro conjI impI)
  show "mset (sort_key (\<lambda>s. - sr_dqi s) (allSites names t)) = mset (allSites names t)"
    by simp
  show "sorted (map (\<lambda>s. - sr_dqi s) (sort_key (\<lambda>s. - sr_dqi s) (allSites names t)))"
    by (rule sorted_sort_key)
  have "filter (\<lambda>s. - sr_dqi s = - k) (sort_key (\<lambda>s. - sr_dqi s) (allSites names t))
          = filter (\<lambda>s. - sr_dqi s = - k) (allSites names t)"
    by (rule sort_key_stable)
  then show "filter (\<lambda>s. sr_dqi s = k) (sort_key (\<lambda>s. - sr_dqi s) (allSites names t))
       = filter (\<lambda>s. sr_dqi s = k) (allSites names t)"
    by simp
next
  assume n: "10 \<le> length (leafKeys t)"
  then show "length (topSites (calculateSiteRankings names t)) = 5"
    by (simp add: calculateSiteRankings_def Let_def all_sites_length)
  show "length (bottomSites (calculateSiteRankings names t)) = 5"
    using n by (simp add: calculateSiteRankings_def Let_def all_sites_length)
  have "sort_key (\<lambda>s. - sr_dqi s) (allSites names t)
          = take 5 (sort_key (\<lambda>s. - sr_dqi s) (allSites names t))
            @ take (length (leafKeys t) - 5 - 5)
                (drop 5 (sort_key (\<lambda>s. - sr_dqi s) (allSites names t)))
            @ drop (length (leafKeys t) - 5) (sort_key (\<lambda>s. - sr_dqi s) (allSites names t))"
    using n take_middle_drop[of 5 "length (leafKeys t) - 5"
            "sort_key (\<lambda>s. - sr_dqi s) (allSites names t)"]
    by simp
  then show "sort_key (\<lambda>s. - sr_dqi s) (allSites names t)
            = topSites (calculateSiteRankings names t)
              @ take (length (leafKeys t) - 10)
                  (drop 5 (sort_key (\<lambda>s. - sr_dqi s) (allSites names t)))
              @ rev (bottomSites (calculateSiteRankings names t))"
    by (simp add: calculateSiteRankings_def Let_def all_sites_length)
next
  assume "10 \<le> length (leafKeys t)" and "distinct (leafKeys t)"
  then show "set (topSites (calculateSiteRankings names t))
               \<inter> set (bottomSites (calculateSiteRankings names t)) = {}"
    using set_take_disj_set_drop_if_distinct[of "sort_key (\<lambda>s. - sr_dqi s) (allSites names t)" 5
            "length (allSites names t) - 5"] all_sites_distinct[of t names]
    by (simp add: calculateSiteRankings_def Let_def all_sites_length)
next
  assume "length (leafKeys t) = 3"
  then show "bottomSites (calculateSiteRankings names t)
               = rev (topSites (calculateSiteRankings names t))"
    by (simp add: calculateSiteRankings_def Let_def all_sites_length)
next
  assume "length (leafKeys t) = 3"
  then show "length (topSites (calculateSiteRankings names t)) = 3"
    by (simp add: calculateSiteRankings_def Let_def all_sites_length)
qed

lemma ten_sites_keys:
  "leafKeys ten_sites
     = [(''DEU'', ''S01''), (''DEU'', ''S02''), (''DEU'', ''S03''), (''DEU'', ''S04''),
        (''DEU'', ''S05''), (''DEU'', ''S06''), (''FRA'', ''S07''), (''FRA'', ''S08''),
        (''FRA'', ''S09''), (''FRA'', ''S10'')]"
  by (simp add: leafKeys_def leafData_def ten_sites_def entries_def or_empty_def
      sample_country_def sample_site_def)

theorem top_bottom_disjoint_witness:
  "length (topSites (calculateSiteRankings countryNames_v2 ten_sites)) = 5
   \<and> length (bottomSites (calculateSiteRankings countryNames_v2 ten_sites)) = 5
   \<and> set (topSites (calculateSiteRankings countryNames_v2 ten_sites))
       \<inter> set (bottomSites (calculateSiteRankings countryNames_v2 ten_sites)) = {}
   \<and> bottomSites (calculateSiteRankings countryNames_v2 three_sites)
       = rev (topSites (calculateSiteRankings countryNames_v2 three_sites))
   \<and> length (topSites (calculateSiteRankings countryNames_v2 three_sites)) = 3"
proof -
  have l10: "10 \<le> length (leafKeys ten_sites)" and d10: "distinct (leafKeys ten_sites)"
    unfolding ten_sites_keys by simp_all
  have l3: "length (leafKeys three_sites) = 3"
    by (simp add: leafKeys_def leafData_def three_sites_def entries_def or_empty_def
        sample_country_def)
  show ?thesis
    using top_bottom_disjoint[of countryNames_v2 ten_sites]
          top_bottom_disjoint[of countryNames_v2 three_sites] l10 d10 l3
    by simp
qed

section \<open>Results on the trend series\<close>

lemma weeks_apart:
  assumes "offsets_bounded clk" and "i < j"
  shows "isoDateWeeksAgo clk j < isoDateWeeksAgo clk i"
proof -
  define L where "L = clk_now clk + clk_offset clk (clk_now clk)"
  define a where "a = clk_offset_local clk (L - int i * 7 * msPerDay)"
  define b where "b = clk_offset_local clk (L - int j * 7 * msPerDay)"
  have ab: "\<bar>a\<bar> \<le> msPerDay" "\<bar>b\<bar> \<le> msPerDay"
    using assms(1) by (simp_all add: offsets_bounded_def a_def b_def)
  have ij: "int i + 1 \<le> int j"
    using assms(2) by simp
  have "(L - int j * 7 * msPerDay - b) + msPerDay \<le> L - int i * 7 * msPerDay - a"
    using ab ij by (simp add: msPerDay_def)
  then have "((L - int j * 7 * msPerDay - b) + msPerDay) div msPerDay
               \<le> (L - int i * 7 * msPerDay - a) div msPerDay"
    by (intro zdiv_mono1) (simp_all add: msPerDay_def)
  moreover have "((L - int j * 7 * msPerDay - b) + msPerDay) div msPerDay
                   = (L - int j * 7 * msPerDay - b) div msPerDay + 1"
    by (simp add: msPerDay_def)
  ultimately show ?thesis
    by (simp add: isoDateWeeksAgo_def Let_def L_def a_def b_def)
qed

lemma fl_error_num: "\<bar>fl x - x\<bar> \<le> \<bar>x\<bar> / 9007199254740992"
  using fl_error[of x] by simp

lemma fl_close:
  assumes "\<bar>x\<bar> \<le> K"
  shows "\<bar>fl x - x\<bar> \<le> K / 9007199254740992"
proof -
  have "\<bar>fl x - x\<bar> \<le> \<bar>x\<bar> / 9007199254740992"
    by (rule fl_error_num)
  also have "\<dots> \<le> K / 9007199254740992"
    using assms by (simp add: divide_right_mono)
  finally show ?thesis .
qed

lemma last_value_range:
  assumes "0 \<le> r" "r < 1"
  shows "77 \<le> round_half_up (fadd 80 (fmul (fadd r (- (1 / 2))) 5))
       \<and> round_half_up (fadd 80 (fmul (fadd r (- (1 / 2))) 5)) \<le> 83"
proof -
  define a where "a = fl (r + - (1 / 2))"
  define j where "j = fl (a * 5)"
  define h where "h = fl (80 + j)"
  have "\<bar>r + - (1 / 2)\<bar> \<le> 1 / 2"
    using assms by linarith
  then have "\<bar>a - (r + - (1 / 2))\<bar> \<le> (1 / 2) / 9007199254740992"
    unfolding a_def by (rule fl_close)
  then have a: "\<bar>a\<bar> \<le> 51 / 100"
    using assms by linarith
  then have "\<bar>a * 5\<bar> \<le> 255 / 100"
    by linarith
  then have "\<bar>j - a * 5\<bar> \<le> (255 / 100) / 9007199254740992"
    unfolding j_def by (rule fl_close)
  then have j: "\<bar>j\<bar> \<le> 26 / 10"
    using a by linarith
  then have "\<bar>80 + j\<bar> \<le> 83"
    by linarith
  then have "\<bar>h - (80 + j)\<bar> \<le> 83 / 9007199254740992"
    unfolding h_def by (rule fl_close)
  then have h: "773 / 10 \<le> h" "h \<le> 828 / 10"
    using j by linarith+
  then have "77 \<le> round_half_up h \<and> round_half_up h \<le> 83"
    by (simp add: round_half_up_def le_floor_iff floor_le_iff)
  then show ?thesis
    by (simp add: h_def j_def a_def fadd_def fmul_def)
qed

lemma newest_point:
  assumes "0 \<le> r" "r < 1"
  shows "\<exists>v. map_of (dqiPoint (Num 80) clk 0 r) ''value'' = Some (JNum (Num (of_int v)))
           \<and> \<bar>v - 80\<bar> \<le> 3"
proof -
  have base: "js_sub (Num 80) (js_mul (Num (real 0)) (Num 3)) = Num 80"
    by (simp add: js_arith fl_evals)
  have jitter: "js_mul (js_sub (Num r) (Num 0.5)) (Num 5) = Num (fmul (fadd r (- (1 / 2))) 5)"
    by (simp add: js_sub_def)
  have range: "77 \<le> round_half_up (fadd 80 (fmul (fadd r (- (1 / 2))) 5))
       \<and> round_half_up (fadd 80 (fmul (fadd r (- (1 / 2))) 5)) \<le> 83"
    using assms by (rule last_value_range)
  then have "(20 :: real) < fadd 80 (fmul (fadd r (- (1 / 2))) 5)"
    by (simp add: round_half_up_def le_floor_iff)
  then have "map_of (dqiPoint (Num 80) clk 0 r) ''value''
        = Some (JNum (Num (of_int (round_half_up (fadd 80 (fmul (fadd r (- (1 / 2))) 5))))))"
    unfolding dqiPoint_def Let_def base jitter
    by (simp add: js_max_def)
  then show ?thesis
    using range by (intro exI[of _ "round_half_up (fadd 80 (fmul (fadd r (- (1 / 2))) 5))"]) auto
qed

lemma trend_points:
  "dqiTrendOf (Some []) dqi clk rnd
     = [dqiPoint dqi clk 6 (rnd 0), dqiPoint dqi clk 5 (rnd 1), dqiPoint dqi clk 4 (rnd 2),
        dqiPoint dqi clk 3 (rnd 3), dqiPoint dqi clk 2 (rnd 4), dqiPoint dqi clk 1 (rnd 5),
        dqiPoint dqi clk 0 (rnd 6)]"
  by (simp add: dqiTrendOf_def degenerate_def or_empty_def generateDQITrend_def eval_nat_numeral)

lemma point_properties:
  "map fst (dqiPoint dqi clk i r) = [''date'', ''value'']"
  "map_of (dqiPoint dqi clk i r) ''date'' = Some (JDay (isoDateWeeksAgo clk i))"
  "map_of (dqiPoint dqi clk i r) ''synthetic'' = None"
  by (simp_all add: dqiPoint_def Let_def)

text \<open>
  C6 (as stated: every generated point is flagged \<open>synthetic: true\<close>). The points generated
  for the current value 80 and an empty series have no property \<open>synthetic\<close>.
\<close>

theorem generated_points_not_flagged:
  "map (\<lambda>p. map_of p ''synthetic'')
       (dqiTrendOf (Some []) (Num 80) (utc_clock 1762041600000) (\<lambda>k. 1 / 2))
     = replicate 7 None"
  by (simp add: trend_points point_properties eval_nat_numeral)

text \<open>
  C6 (amended). With the current value 80 and an empty series, whatever the clock of a host
  whose offsets from UTC stay within one day and whatever the draws (each from 0 up to but
  not including 1), the trend has exactly 7 points, each an object with the two properties
  \<open>date\<close> and \<open>value\<close> and no other, the dates are those of today's local date moved back
  by 6, 5, 4, 3, 2 and 1 weeks and of today, in this order, each later than the one before,
  and the value of the last point is an integer that differs from 80 by at most 3: it is 80
  plus a jitter between -2.5 and 2.5, rounded.
\<close>

theorem generated_trend:
  assumes draws: "\<And>k. k < 7 \<Longrightarrow> 0 \<le> rnd k \<and> rnd k < 1"
    and offsets: "offsets_bounded clk"
  shows "length (dqiTrendOf (Some []) (Num 80) clk rnd) = 7
       \<and> map (map fst) (dqiTrendOf (Some []) (Num 80) clk rnd)
           = replicate 7 [''date'', ''value'']
       \<and> map (\<lambda>p. map_of p ''date'') (dqiTrendOf (Some []) (Num 80) clk rnd)
           = map (\<lambda>i. Some (JDay (isoDateWeeksAgo clk i))) [6, 5, 4, 3, 2, 1, 0]
       \<and> sorted_wrt (<) (map (isoDateWeeksAgo clk) [6, 5, 4, 3, 2, 1, 0])
       \<and> (\<exists>v. map_of (last (dqiTrendOf (Some []) (Num 80) clk rnd)) ''value''
                 = Some (JNum (Num (of_int v))) \<and> \<bar>v - 80\<bar> \<le> 3)"
proof (intro conjI)
  show "length (dqiTrendOf (Some []) (Num 80) clk rnd) = 7"
    by (simp add: trend_points)
  show "map (map fst) (dqiTrendOf (Some []) (Num 80) clk rnd) = replicate 7 [''date'', ''value'']"
    by (simp add: trend_points point_properties eval_nat_numeral)
  show "map (\<lambda>p. map_of p ''date'') (dqiTrendOf (Some []) (Num 80) clk rnd)
           = map (\<lambda>i. Some (JDay (isoDateWeeksAgo clk i))) [6, 5, 4, 3, 2, 1, 0]"
    by (simp add: trend_points point_properties)
  show "sorted_wrt (<) (map (isoDateWeeksAgo clk) [6, 5, 4, 3, 2, 1, 0])"
    by (simp add: weeks_apart[OF offsets])
  have "0 \<le> rnd 6" "rnd 6 < 1"
    using draws[of 6] by simp_all
  then show "\<exists>v. map_of (last (dqiTrendOf (Some []) (Num 80) clk rnd)) ''value''
                 = Some (JNum (Num (of_int v))) \<and> \<bar>v - 80\<bar> \<le> 3"
    using newest_point[of "rnd 6" clk] by (simp add: trend_points)
qed

text \<open>
  On a host five hours behind UTC, at half past midnight UTC, whose offset was four hours
  until three days ago, the last two dates are 8 days apart.
\<close>

lemma west_dates:
  "map (isoDateWeeksAgo (west_clock 1762561800000 1762214400000)) [6, 5, 4, 3, 2, 1, 0]
     = [20357, 20364, 20371, 20378, 20385, 20392, 20400]"
  by (simp add: isoDateWeeksAgo_def west_clock_def Let_def msPerDay_def)

lemma west_offsets: "offsets_bounded (west_clock t change)"
  by (simp add: offsets_bounded_def west_clock_def msPerDay_def)

theorem generated_trend_witness:
  "length (dqiTrendOf (Some []) (Num 80) (west_clock 1762561800000 1762214400000)
      (\<lambda>k. 1 / 4)) = 7
   \<and> map (\<lambda>p. map_of p ''date'')
        (dqiTrendOf (Some []) (Num 80) (west_clock 1762561800000 1762214400000) (\<lambda>k. 1 / 4))
       = map (\<lambda>d. Some (JDay d)) [20357, 20364, 20371, 20378, 20385, 20392, 20400]
   \<and> (\<exists>v. map_of (last (dqiTrendOf (Some []) (Num 80)
              (west_clock 1762561800000 1762214400000) (\<lambda>k. 1 / 4))) ''value''
             = Some (JNum (Num (of_int v))) \<and> \<bar>v - 80\<bar> \<le> 3)"
proof -
  have h: "\<And>k. k < (7::nat) \<Longrightarrow> 0 \<le> (1 / 4 :: real) \<and> (1 / 4 :: real) < 1"
    by simp
  have d: "map (\<lambda>i. Some (JDay (isoDateWeeksAgo (west_clock 1762561800000 1762214400000) i)))
             [6, 5, 4, 3, 2, 1, 0]
           = map (\<lambda>d. Some (JDay d)) [20357, 20364, 20371, 20378, 20385, 20392, 20400]"
    using west_dates by simp
  show ?thesis
    using generated_trend [of "\<lambda>k. 1 / 4" "west_clock 1762561800000 1762214400000",
        OF h west_offsets]
    unfolding d by simp
qed

section \<open>Results on repeated runs\<close>

lemma supplied_not_degenerate: "\<not> degenerate supplied_series"
  by (simp add: degenerate_def supplied_series_def)

lemma last_generated_point:
  "last (generateTrendData v 7 decreasing clk rnd) = trendPoint v 7 decreasing clk 0 (rnd 6)"
  by (simp add: generateTrendData_def eval_nat_numeral)

lemma open_query_point_0:
  "map_of (trendPoint (Num 200) 7 True clk 0 0) ''value'' = Some (JNum (Num 190))"
  by (simp add: trendPoint_def Let_def js_arith fl_evals)

lemma open_query_point_half:
  "map_of (trendPoint (Num 200) 7 True clk 0 (1 / 2)) ''value'' = Some (JNum (Num 200))"
  by (simp add: trendPoint_def Let_def js_arith fl_evals)

lemma supplied_open_queries:
  "tr_openQueries (dm_trends (dashboardFrom_v2 supplied_snapshot clk rnd))
     = generateTrendData (Num 200) 7 True clk (skip (drawsBeforeTrends supplied_snapshot + 7) rnd)"
  by (simp add: dashboardFrom_v2_def trends_v2_def Let_def supplied_snapshot_def
      scenario_snapshot_def or_empty_def)

text \<open>
  C7 (as stated: with a series of its own in the snapshot, two runs give identical
  models). Two runs on the same snapshot at the same clock reading, one drawing 0 and the
  other 1/2 from \<open>Math.random\<close>, differ in the open-query trend.
\<close>

theorem runs_differ:
  "tr_openQueries (dm_trends (dashboardFrom_v2 supplied_snapshot (utc_clock 0) (\<lambda>k. 0)))
     \<noteq> tr_openQueries (dm_trends (dashboardFrom_v2 supplied_snapshot (utc_clock 0) (\<lambda>k. 1 / 2)))"
proof
  assume "tr_openQueries (dm_trends (dashboardFrom_v2 supplied_snapshot (utc_clock 0) (\<lambda>k. 0)))
     = tr_openQueries (dm_trends (dashboardFrom_v2 supplied_snapshot (utc_clock 0) (\<lambda>k. 1 / 2)))"
  then have "map_of (last (tr_openQueries (dm_trends
                 (dashboardFrom_v2 supplied_snapshot (utc_clock 0) (\<lambda>k. 0))))) ''value''
           = map_of (last (tr_openQueries (dm_trends
                 (dashboardFrom_v2 supplied_snapshot (utc_clock 0) (\<lambda>k. 1 / 2))))) ''value''"
    by simp
  then show False
    by (simp add: supplied_open_queries last_generated_point skip_def
        open_query_point_0 open_query_point_half)
qed

text \<open>
  C7 (amended). For every raw snapshot with a non-degenerate trend series of its own, two
  runs, whatever their clocks and draws, agree on the data source, the pass-through
  properties, the study block, the executive KPIs, the readiness criteria, the regions, the
  two site rankings and the bottlenecks, and both carry the series of the snapshot
  unchanged as the DQI trend; two runs at the same clock reading agree on the insights and
  the recommendations as well.
\<close>

theorem runs_agree:
  assumes "raw_dqiTrend raw = Some t" and "\<not> degenerate t"
  shows "dm_dataSource (dashboardFrom_v2 raw clk1 rnd1) = dm_dataSource (dashboardFrom_v2 raw clk2 rnd2)
       \<and> dm_governanceStatement (dashboardFrom_v2 raw clk1 rnd1)
           = dm_governanceStatement (dashboardFrom_v2 raw clk2 rnd2)
       \<and> dm_extractionStats (dashboardFrom_v2 raw clk1 rnd1)
           = dm_extractionStats (dashboardFrom_v2 raw clk2 rnd2)
       \<and> dm_study (dashboardFrom_v2 raw clk1 rnd1) = dm_study (dashboardFrom_v2 raw clk2 rnd2)
       \<and> dm_executiveKPIs (dashboardFrom_v2 raw clk1 rnd1)
           = dm_executiveKPIs (dashboardFrom_v2 raw clk2 rnd2)
       \<and> dm_readinessCriteria (dashboardFrom_v2 raw clk1 rnd1)
           = dm_readinessCriteria (dashboardFrom_v2 raw clk2 rnd2)
       \<and> dm_regions (dashboardFrom_v2 raw clk1 rnd1) = dm_regions (dashboardFrom_v2 raw clk2 rnd2)
       \<and> dm_topSites (dashboardFrom_v2 raw clk1 rnd1) = dm_topSites (dashboardFrom_v2 raw clk2 rnd2)
       \<and> dm_bottomSites (dashboardFrom_v2 raw clk1 rnd1)
           = dm_bottomSites (dashboardFrom_v2 raw clk2 rnd2)
       \<and> dm_bottlenecks (dashboardFrom_v2 raw clk1 rnd1)
           = dm_bottlenecks (dashboardFrom_v2 raw clk2 rnd2)
       \<and> tr_dqi (dm_trends (dashboardFrom_v2 raw clk1 rnd1)) = t
       \<and> tr_dqi (dm_trends (dashboardFrom_v2 raw clk2 rnd2)) = t
       \<and> dm_aiInsights (dashboardFrom_v2 raw clk1 rnd1)
           = dm_aiInsights (dashboardFrom_v2 raw clk1 rnd2)
       \<and> dm_agentRecommendations (dashboardFrom_v2 raw clk1 rnd1)
           = dm_agentRecommendations (dashboardFrom_v2 raw clk1 rnd2)"
  using assms
  by (simp add: dashboardFrom_v2_def trends_v2_def Let_def dqiTrendOf_def or_empty_def)

theorem runs_agree_witness:
  "dm_executiveKPIs (dashboardFrom_v2 supplied_snapshot (utc_clock 0) (\<lambda>k. 0))
     = dm_executiveKPIs (dashboardFrom_v2 supplied_snapshot (utc_clock 86400000) (\<lambda>k. 1 / 2))
   \<and> tr_dqi (dm_trends (dashboardFrom_v2 supplied_snapshot (utc_clock 0) (\<lambda>k. 0)))
       = supplied_series
   \<and> tr_dqi (dm_trends (dashboardFrom_v2 supplied_snapshot (utc_clock 86400000) (\<lambda>k. 1 / 2)))
       = supplied_series"
proof -
  have s: "raw_dqiTrend supplied_snapshot = Some supplied_series"
    by (simp add: supplied_snapshot_def)
  show ?thesis
    using runs_agree [OF s supplied_not_degenerate, of "utc_clock 0" "\<lambda>k. 0"
        "utc_clock 86400000" "\<lambda>k. 1 / 2"]
    by simp
qed

section \<open>Results on failures\<close>

text \<open>
  C8. When the cache is empty, no snapshot is embedded and the fetch fails (it is rejected,
  the response is not ok, or its body is no JSON), the adapter returns the fixture
  \<open>MockData\<close> and caches nothing, and the dashboard that awaits the adapter holds the
  fixture, whose \<open>executiveKPIs\<close> property is there.
\<close>

theorem retrieval_failure_gives_fixture:
  assumes "RealDataCache env = None" and "RealData env = None" and "fetchFailed (fetched env)"
  shows "getRealDashboardData_v2 env clk rnd = (MockData, env)
       \<and> initAsync True (Some (Inr (fst (getRealDashboardData_v2 env clk rnd)))) = MockData
       \<and> executiveKPIs_of (initAsync True (Some (Inr (fst (getRealDashboardData_v2 env clk rnd)))))
           = Some MockData_executiveKPIs"
  using assms
  by (simp add: getRealDashboardData_v2_def loadRealData_def fetchFailed_def initAsync_def
      split: fetch_outcome.splits)

theorem retrieval_failure_gives_fixture_witness:
  "getRealDashboardData_v2 offline_env (utc_clock 0) (\<lambda>k. 0) = (MockData, offline_env)
   \<and> initAsync True (Some (Inr (fst (getRealDashboardData_v2 offline_env (utc_clock 0) (\<lambda>k. 0)))))
       = MockData"
proof -
  have a: "RealDataCache offline_env = None" and b: "RealData offline_env = None"
    and c: "fetchFailed (fetched offline_env)"
    by (simp_all add: offline_env_def fetchFailed_def)
  show ?thesis
    using retrieval_failure_gives_fixture [OF a b c, of "utc_clock 0" "\<lambda>k. 0"]
    by (simp add: initAsync_def)
qed

text \<open>
  C9 (the code at the failing input). On the snapshot \<open>{}\<close> the older insight generator
  and the older recommendation generator both end in a TypeError, at whatever clock
  reading. The older insight generator ends in a TypeError exactly when one of
  \<open>saes.open\<close>, \<open>saes.sitesWithOpenSAE\<close> and \<open>saes.patientsWithOpenSAE\<close> is absent.
\<close>

theorem older_generators_throw:
  "generateAIInsights_v1 empty_snapshot (dqi_v1 empty_snapshot) 0 no_saes no_queries now
     = Inl TypeError
   \<and> generateAgentRecommendations_v1 empty_snapshot no_saes no_queries 0 now = Inl TypeError
   \<and> (generateAIInsights_v1 raw dqi sitesAtRisk saes queries now = Inl TypeError)
       = (sae_open saes = None \<or> sitesWithOpenSAE saes = None \<or> patientsWithOpenSAE saes = None)"
  by (auto simp: generateAIInsights_v1_def generateAgentRecommendations_v1_def then_do_def
      toLocaleString_def no_saes_def no_queries_def js_gt_def over30_def
      split: option.splits)

end
